theory Spec2Isabelle
  imports Main "HOL-Library.Word"
begin

section \<open>JavaScript strings and arrays\<close>

text \<open>
  A JavaScript string is a sequence of UTF-16 code units. String literals of the source
  are written \<open>str ''...''\<close>. All numbers of the source that are modelled here are
  integers (positions, offsets, sequence numbers); positions may be negative
  (\<open>lineAt\<close> passes \<open>-1\<close>), so they are \<open>int\<close>.
\<close>

type_synonym jschar = "16 word"
type_synonym jsstring = "jschar list"

definition str :: "string \<Rightarrow> jsstring" where
  "str s = map of_char s"

text \<open>\<open>Number.MAX_VALUE\<close>, which is an integer.\<close>

definition MAX_VALUE :: int where
  "MAX_VALUE = 2 ^ 1024 - 2 ^ 971"

text \<open>White space and line terminators of ECMAScript: what \<open>trim\<close> strips and \<open>\s\<close> matches.\<close>

definition isLineTerminator :: "jschar \<Rightarrow> bool" where
  "isLineTerminator c = (c = 0x000A \<or> c = 0x000D \<or> c = 0x2028 \<or> c = 0x2029)"

definition isWhiteSpace :: "jschar \<Rightarrow> bool" where
  "isWhiteSpace c =
     (c = 0x0009 \<or> c = 0x000B \<or> c = 0x000C \<or> c = 0x0020 \<or> c = 0x00A0 \<or> c = 0x1680
      \<or> (0x2000 \<le> c \<and> c \<le> 0x200A) \<or> c = 0x202F \<or> c = 0x205F \<or> c = 0x3000
      \<or> c = 0xFEFF \<or> isLineTerminator c)"

definition trim :: "jsstring \<Rightarrow> jsstring" where
  "trim s = rev (dropWhile isWhiteSpace (rev (dropWhile isWhiteSpace s)))"

definition startsWith :: "jsstring \<Rightarrow> jsstring \<Rightarrow> bool" where
  "startsWith s p = (take (length p) s = p)"

definition endsWith :: "jsstring \<Rightarrow> jsstring \<Rightarrow> bool" where
  "endsWith s p = (length p \<le> length s \<and> drop (length s - length p) s = p)"

text \<open>\<open>s.substr(start, length)\<close>; \<open>None\<close> is the omitted second argument.\<close>

definition substr :: "jsstring \<Rightarrow> int \<Rightarrow> int option \<Rightarrow> jsstring" where
  "substr s start len =
     (let size = int (length s);
          intStart = (if start < 0 then max (size + start) 0 else min start size);
          intLength = min (max (case len of None \<Rightarrow> size | Some l \<Rightarrow> l) 0) size;
          intEnd = min (intStart + intLength) size
      in take (nat (intEnd - intStart)) (drop (nat intStart) s))"

text \<open>\<open>s.substring(start, end)\<close>: both ends clamped into the string, swapped when reversed.\<close>

definition substring :: "jsstring \<Rightarrow> int \<Rightarrow> int \<Rightarrow> jsstring" where
  "substring s start end =
     (let size = int (length s);
          finalStart = min (max start 0) size;
          finalEnd = min (max end 0) size;
          from = min finalStart finalEnd;
          to = max finalStart finalEnd
      in take (nat (to - from)) (drop (nat from) s))"

text \<open>\<open>s.slice(start, end)\<close>.\<close>

definition slice :: "jsstring \<Rightarrow> int \<Rightarrow> int \<Rightarrow> jsstring" where
  "slice s start end =
     (let size = int (length s);
          from = (if start < 0 then max (size + start) 0 else min start size);
          to = (if end < 0 then max (size + end) 0 else min end size)
      in take (nat (max (to - from) 0)) (drop (nat from) s))"

text \<open>\<open>s.charAt(i)\<close>: the empty string out of range.\<close>

definition charAt :: "jsstring \<Rightarrow> int \<Rightarrow> jsstring" where
  "charAt s i = (if 0 \<le> i \<and> i < int (length s) then [s ! nat i] else [])"

text \<open>\<open>xs.indexOf(x)\<close>: the first index, or \<open>-1\<close>.\<close>

fun indexOf :: "'a list \<Rightarrow> 'a \<Rightarrow> int" where
  "indexOf [] x = -1"
| "indexOf (y # ys) x =
     (if y = x then 0 else (let i = indexOf ys x in if i < 0 then -1 else i + 1))"

text \<open>
  \<open>xs.splice(start, 1)\<close>: a negative start counts from the end (\<open>splice(-1, 1)\<close>
  removes the last element), a start beyond the end removes nothing.
\<close>

definition splice1 :: "'a list \<Rightarrow> int \<Rightarrow> 'a list" where
  "splice1 xs start =
     (let len = int (length xs);
          actualStart = (if start < 0 then max (len + start) 0 else min start len)
      in take (nat actualStart) xs @ drop (nat actualStart + 1) xs)"

section \<open>Positions, ranges and text documents\<close>

record Position =
  line :: int
  character :: int

record Range =
  start :: Position
  endp :: Position

definition Position_create :: "int \<Rightarrow> int \<Rightarrow> Position" where
  "Position_create l c = \<lparr>line = l, character = c\<rparr>"

definition Range_create :: "Position \<Rightarrow> Position \<Rightarrow> Range" where
  "Range_create s e = \<lparr>start = s, endp = e\<rparr>"

definition Range_create4 :: "int \<Rightarrow> int \<Rightarrow> int \<Rightarrow> int \<Rightarrow> Range" where
  "Range_create4 l1 c1 l2 c2 = Range_create (Position_create l1 c1) (Position_create l2 c2)"

record TextDocumentItem =
  item_uri :: jsstring
  item_languageId :: jsstring
  item_version :: int
  item_text :: jsstring

text \<open>
  \<open>LspDocument\<close> wraps an \<open>lsp.TextDocument\<close> and delegates to it: the record is
  the wrapped document (\<open>uri\<close>, \<open>languageId\<close>, \<open>version\<close> and the full text that
  \<open>getText()\<close> returns).
\<close>

record LspDocument =
  uri :: jsstring
  languageId :: jsstring
  version :: int
  content :: jsstring

text \<open>
  Modelled from the spec: the text document of the library vscode-languageserver
  (\<open>lsp.TextDocument.create\<close>, \<open>getText\<close>, \<open>offsetAt\<close>, \<open>positionAt\<close>,
  \<open>lineCount\<close>), which is not part of the repository. Lines count from 0, a
  character is a UTF-16 code-unit offset within its line, each of the newline sequences
  CR LF, LF and CR is one line break, and a position outside the text is clamped into it.
  \<open>getLineOffsets\<close> lists the offset at which every line starts; the empty text has
  no line.
\<close>

definition TextDocument_create :: "jsstring \<Rightarrow> jsstring \<Rightarrow> int \<Rightarrow> jsstring \<Rightarrow> LspDocument" where
  "TextDocument_create u l v t = \<lparr>uri = u, languageId = l, version = v, content = t\<rparr>"

fun line_starts :: "int \<Rightarrow> jsstring \<Rightarrow> int list" where
  "line_starts i [] = []"
| "line_starts i [c] = (if c = 0x000D \<or> c = 0x000A then [i + 1] else [])"
| "line_starts i (c # d # cs) =
     (if c = 0x000D \<and> d = 0x000A then (i + 2) # line_starts (i + 2) cs
      else if c = 0x000D \<or> c = 0x000A then (i + 1) # line_starts (i + 1) (d # cs)
      else line_starts (i + 1) (d # cs))"

definition getLineOffsets :: "LspDocument \<Rightarrow> int list" where
  "getLineOffsets d = (if content d = [] then [] else 0 # line_starts 0 (content d))"

definition lineCount :: "LspDocument \<Rightarrow> int" where
  "lineCount d = int (length (getLineOffsets d))"

definition offsetAt :: "LspDocument \<Rightarrow> Position \<Rightarrow> int" where
  "offsetAt d p =
     (let lineOffsets = getLineOffsets d in
      if line p \<ge> int (length lineOffsets) then int (length (content d))
      else if line p < 0 then 0
      else
        let lineOffset = lineOffsets ! nat (line p);
            nextLineOffset =
              (if line p + 1 < int (length lineOffsets) then lineOffsets ! nat (line p + 1)
               else int (length (content d)))
        in max (min (lineOffset + character p) nextLineOffset) lineOffset)"

definition positionAt :: "LspDocument \<Rightarrow> int \<Rightarrow> Position" where
  "positionAt d offset =
     (let off = max (min offset (int (length (content d)))) 0;
          lineOffsets = getLineOffsets d
      in if lineOffsets = [] then Position_create 0 off
         else
           let low = int (length (takeWhile (\<lambda>lo. lo \<le> off) lineOffsets));
               ln = low - 1
           in Position_create ln (off - lineOffsets ! nat ln))"

definition getText :: "LspDocument \<Rightarrow> Range option \<Rightarrow> jsstring" where
  "getText d r =
     (case r of
        None \<Rightarrow> content d
      | Some rg \<Rightarrow> substring (content d) (offsetAt d (start rg)) (offsetAt d (endp rg)))"

section \<open>The document mirror (document.ts)\<close>

definition LspDocument_new :: "TextDocumentItem \<Rightarrow> LspDocument" where
  "LspDocument_new doc =
     TextDocument_create (item_uri doc) (item_languageId doc) (item_version doc) (item_text doc)"

definition lineAt :: "LspDocument \<Rightarrow> int \<Rightarrow> jsstring" where
  "lineAt d l = getText d (Some (Range_create4 l (-1) l MAX_VALUE))"

definition getLine :: "LspDocument \<Rightarrow> int \<Rightarrow> jsstring" where
  "getLine d l = lineAt d l"

definition getLineStart :: "int \<Rightarrow> Position" where
  "getLineStart l = Position_create l 0"

definition getLineOffset :: "LspDocument \<Rightarrow> int \<Rightarrow> int" where
  "getLineOffset d l = offsetAt d (getLineStart l)"

definition getLineEnd :: "LspDocument \<Rightarrow> int \<Rightarrow> Position" where
  "getLineEnd d l = (let nextLineOffset = getLineOffset d (l + 1) in positionAt d (nextLineOffset - 1))"

record TextDocumentContentChangeEvent =
  change_range :: "Range option"
  change_text :: jsstring

definition applyEdit :: "LspDocument \<Rightarrow> int \<Rightarrow> TextDocumentContentChangeEvent \<Rightarrow> LspDocument" where
  "applyEdit d newVersion change =
     (let content0 = getText d None;
          newContent =
            (case change_range change of
               None \<Rightarrow> change_text change
             | Some rg \<Rightarrow>
                 (let s = offsetAt d (start rg);
                      e = offsetAt d (endp rg)
                  in substr content0 0 (Some s) @ change_text change @ substr content0 e None))
      in TextDocument_create (uri d) (languageId d) newVersion newContent)"

text \<open>\<open>/\s/.test(s)\<close>: some code unit of \<open>s\<close> is white space.\<close>

definition test_whitespace :: "jsstring \<Rightarrow> bool" where
  "test_whitespace s = list_ex isWhiteSpace s"

function wordStartLoop :: "jsstring \<Rightarrow> int \<Rightarrow> int" where
  "wordStartLoop lineText startChar =
     (if startChar > 0 \<and> \<not> test_whitespace (charAt lineText (startChar - 1))
      then wordStartLoop lineText (startChar - 1) else startChar)"
  by pat_completeness auto
termination
  by (relation "measure (\<lambda>(t, s). nat s)") auto

function wordEndLoop :: "jsstring \<Rightarrow> int \<Rightarrow> int" where
  "wordEndLoop lineText endChar =
     (if endChar < int (length lineText) - 1 \<and> \<not> test_whitespace (charAt lineText endChar)
      then wordEndLoop lineText (endChar + 1) else endChar)"
  by pat_completeness auto
termination
  by (relation "measure (\<lambda>(t, e). nat (int (length t) - 1 - e))") auto

definition getWordRangeAtPosition :: "LspDocument \<Rightarrow> Position \<Rightarrow> Range option" where
  "getWordRangeAtPosition d position =
     (let lines = lineCount d;
          ln = min (lines - 1) (max 0 (line position));
          lineText = getLine d ln;
          ch = min (int (length lineText) - 1) (max 0 (character position));
          startChar = wordStartLoop lineText ch;
          endChar = wordEndLoop lineText ch
      in if startChar = endChar then None
         else Some (Range_create4 ln startChar ln endChar))"

text \<open>
  \<open>LspDocuments\<close>: the private array \<open>_files\<close> (sorted by last access) and the map
  \<open>documents\<close> from file path to document. The documents are mutable objects held by
  the map; an edit of an open document is written back under its path.
\<close>

record LspDocuments =
  files :: "jsstring list"
  documents :: "jsstring \<rightharpoonup> LspDocument"

definition LspDocuments_get :: "LspDocuments \<Rightarrow> jsstring \<Rightarrow> LspDocument option \<times> LspDocuments" where
  "LspDocuments_get ds file =
     (case documents ds file of
        None \<Rightarrow> (None, ds)
      | Some document \<Rightarrow>
          (if (case files ds of [] \<Rightarrow> True | f # _ \<Rightarrow> f \<noteq> file)
           then (Some document,
                 ds\<lparr>files := file # splice1 (files ds) (indexOf (files ds) file)\<rparr>)
           else (Some document, ds)))"

definition LspDocuments_open :: "LspDocuments \<Rightarrow> jsstring \<Rightarrow> TextDocumentItem \<Rightarrow> bool \<times> LspDocuments" where
  "LspDocuments_open ds file doc =
     (if documents ds file \<noteq> None then (False, ds)
      else (True, ds\<lparr>documents := (documents ds)(file \<mapsto> LspDocument_new doc),
                      files := file # files ds\<rparr>))"

definition LspDocuments_close :: "LspDocuments \<Rightarrow> jsstring \<Rightarrow> LspDocument option \<times> LspDocuments" where
  "LspDocuments_close ds file =
     (case documents ds file of
        None \<Rightarrow> (None, ds)
      | Some document \<Rightarrow>
          (Some document,
           ds\<lparr>documents := (documents ds)(file := None),
              files := splice1 (files ds) (indexOf (files ds) file)\<rparr>))"

section \<open>The tsserver protocol\<close>

text \<open>
  Modelled from the spec: the kinds of \<open>ScriptElementKind\<close> (tsp-command-types.ts) and
  the constants of protocol.const.ts, which are not among the sources. The constructors
  carry the names the source uses; \<open>PConst.Kind.warning\<close>, \<open>PConst.Kind.script\<close>,
  \<open>PConst.Kind.directory\<close> and \<open>PConst.Kind.externalModuleName\<close> are the kinds
  \<open>warning\<close>, \<open>scriptElement\<close>, \<open>directory\<close> and \<open>externalModuleName\<close>;
  \<open>aliasKind\<close> and \<open>stringKind\<close> are the kinds \<open>alias\<close> and \<open>string\<close>;
  \<open>otherKind\<close> is any kind the source does not name. The kind modifiers are the
  strings \<open>optional\<close> and the file-extension modifiers.
\<close>

datatype ScriptElementKind =
    primitiveType | keyword | constElement | letElement | variableElement
  | localVariableElement | aliasKind | memberVariableElement | memberGetAccessorElement
  | memberSetAccessorElement | functionElement | memberFunctionElement
  | constructSignatureElement | callSignatureElement | indexSignatureElement
  | enumElement | moduleElement | externalModuleName | classElement | typeElement
  | interfaceElement | warning | scriptElement | directory | stringKind
  | otherKind jsstring

definition KindModifiers_optional :: jsstring where
  "KindModifiers_optional = str ''optional''"

definition fileExtensionKindModifiers :: "jsstring list" where
  "fileExtensionKindModifiers = [str ''.d.ts'', str ''.ts'', str ''.tsx'', str ''.js'', str ''.jsx'']"

record Location =
  loc_line :: int
  loc_offset :: int

record TextSpan =
  span_start :: Location
  span_end :: Location

record CompletionEntry =
  name :: jsstring
  kind :: ScriptElementKind
  kindModifiers :: "jsstring option"
  sortText :: jsstring
  insertText :: "jsstring option"
  replacementSpan :: "TextSpan option"
  hasAction :: bool
  source :: "jsstring option"
  isRecommended :: bool

text \<open>
  Modelled from the spec: \<open>toPosition\<close> and \<open>asRange\<close> of protocol-translation.ts,
  which is not among the sources: the 1-based positions of tsserver become the 0-based
  positions of LSP.
\<close>

definition toPosition :: "Location \<Rightarrow> Position" where
  "toPosition l = \<lparr>line = loc_line l - 1, character = loc_offset l - 1\<rparr>"

definition asRange :: "TextSpan \<Rightarrow> Range" where
  "asRange sp = \<lparr>start = toPosition (span_start sp), endp = toPosition (span_end sp)\<rparr>"

text \<open>
  A JavaScript value used as a condition: \<open>undefined\<close> and the empty string are falsy.
\<close>

definition truthy :: "jsstring option \<Rightarrow> bool" where
  "truthy v = (case v of None \<Rightarrow> False | Some s \<Rightarrow> s \<noteq> [])"

section \<open>Completion items (completion.ts)\<close>

datatype CompletionItemKind =
    CIK_Keyword | CIK_Constant | CIK_Variable | CIK_Field | CIK_Function | CIK_Method
  | CIK_Enum | CIK_Module | CIK_Class | CIK_Interface | CIK_File | CIK_Folder | CIK_Property

datatype InsertTextFormat = PlainText | Snippet

datatype EntryName = EntryNameOnly jsstring | EntryNameSource jsstring jsstring

record CompletionDetailsRequestArgs =
  data_file :: jsstring
  data_line :: int
  data_offset :: int
  entryNames :: "EntryName list"

record TextEdit =
  edit_range :: Range
  newText :: jsstring

record TSCompletionItem =
  label :: jsstring
  item_kind :: CompletionItemKind
  item_sortText :: jsstring
  commitCharacters :: "jsstring list option"
  data :: CompletionDetailsRequestArgs
  filterText :: "jsstring option"
  item_insertText :: "jsstring option"
  preselect :: "bool option"
  insertTextFormat :: "InsertTextFormat option"
  detail :: "jsstring option"
  textEdit :: "TextEdit option"

text \<open>
  \<open>s.replace(/^this\.#/, '')\<close> and \<open>s.replace(/^#/, '')\<close>: the prefix is removed when
  the string starts with it.
\<close>

definition replacePrefix :: "jsstring \<Rightarrow> jsstring \<Rightarrow> jsstring" where
  "replacePrefix p s = (if startsWith s p then drop (length p) s else s)"

text \<open>
  The regular expression of \<open>getFilterText\<close>, as the source writes it:
  \<^verbatim>\<open>/^\[['"](.+)[['"]\]$/\<close>. It is anchored at both ends, two code units stand before
  the group and two after it, so a match is the whole string and the group is what lies
  between: at least one code unit, none a line terminator (what \<open>.\<close> matches). The code
  unit before the closing bracket is taken from the class \<^verbatim>\<open>[['"]\<close>, which holds the
  opening bracket besides the two quotes. \<open>bracketAccessorGroup\<close> is the captured
  group of a match, \<open>replaceBracketAccessor\<close> the call of \<open>replace\<close> with \<open>'.$1'\<close>.
\<close>

definition bracketAccessorGroup :: "jsstring \<Rightarrow> jsstring option" where
  "bracketAccessorGroup s =
     (let n = length s in
      if 5 \<le> n
         \<and> s ! 0 = of_char CHR ''[''
         \<and> (s ! 1 = of_char CHR 0x27 \<or> s ! 1 = of_char CHR 0x22)
         \<and> (s ! (n - 2) = of_char CHR ''['' \<or> s ! (n - 2) = of_char CHR 0x27
              \<or> s ! (n - 2) = of_char CHR 0x22)
         \<and> s ! (n - 1) = of_char CHR '']''
         \<and> \<not> list_ex isLineTerminator (take (n - 4) (drop 2 s))
      then Some (take (n - 4) (drop 2 s)) else None)"

definition replaceBracketAccessor :: "jsstring \<Rightarrow> jsstring" where
  "replaceBracketAccessor s =
     (case bracketAccessorGroup s of None \<Rightarrow> s | Some g \<Rightarrow> str ''.'' @ g)"

definition getFilterText ::
  "jsstring \<Rightarrow> jsstring option \<Rightarrow> CompletionEntry \<Rightarrow> Position \<Rightarrow> LspDocument \<Rightarrow> jsstring option" where
  "getFilterText ln insText entry position document =
     (if startsWith (name entry) (str ''#'') then
        (let wordRange = getWordRangeAtPosition document position;
             wordStart = (case wordRange of
                            None \<Rightarrow> None
                          | Some r \<Rightarrow> Some (charAt ln (character (start r))))
         in if truthy insText then
              (if startsWith (the insText) (str ''this.#'')
               then (if wordStart = Some (str ''#'') then insText
                     else Some (replacePrefix (str ''this.#'') (the insText)))
               else insText)
            else (if wordStart = Some (str ''#'') then None
                  else Some (replacePrefix (str ''#'') (name entry))))
      else if (case insText of None \<Rightarrow> False | Some t \<Rightarrow> startsWith t (str ''this.'')) then None
      else if (case insText of None \<Rightarrow> False | Some t \<Rightarrow> startsWith t (str ''['')) then
        Some (replaceBracketAccessor (the insText))
      else insText)"

definition asCompletionItemKind :: "ScriptElementKind \<Rightarrow> CompletionItemKind" where
  "asCompletionItemKind k =
     (case k of
        primitiveType \<Rightarrow> CIK_Keyword
      | keyword \<Rightarrow> CIK_Keyword
      | constElement \<Rightarrow> CIK_Constant
      | letElement \<Rightarrow> CIK_Variable
      | variableElement \<Rightarrow> CIK_Variable
      | localVariableElement \<Rightarrow> CIK_Variable
      | aliasKind \<Rightarrow> CIK_Variable
      | memberVariableElement \<Rightarrow> CIK_Field
      | memberGetAccessorElement \<Rightarrow> CIK_Field
      | memberSetAccessorElement \<Rightarrow> CIK_Field
      | functionElement \<Rightarrow> CIK_Function
      | memberFunctionElement \<Rightarrow> CIK_Method
      | constructSignatureElement \<Rightarrow> CIK_Method
      | callSignatureElement \<Rightarrow> CIK_Method
      | indexSignatureElement \<Rightarrow> CIK_Method
      | enumElement \<Rightarrow> CIK_Enum
      | moduleElement \<Rightarrow> CIK_Module
      | externalModuleName \<Rightarrow> CIK_Module
      | classElement \<Rightarrow> CIK_Class
      | typeElement \<Rightarrow> CIK_Class
      | interfaceElement \<Rightarrow> CIK_Interface
      | warning \<Rightarrow> CIK_File
      | scriptElement \<Rightarrow> CIK_File
      | directory \<Rightarrow> CIK_Folder
      | stringKind \<Rightarrow> CIK_Constant
      | otherKind _ \<Rightarrow> CIK_Property)"

definition asCommitCharacters :: "ScriptElementKind \<Rightarrow> jsstring list option" where
  "asCommitCharacters k =
     (if k \<in> {memberGetAccessorElement, memberSetAccessorElement, constructSignatureElement,
               callSignatureElement, indexSignatureElement, enumElement, interfaceElement}
      then Some [str ''.'']
      else if k \<in> {moduleElement, aliasKind, constElement, letElement, variableElement,
                    localVariableElement, memberVariableElement, classElement, functionElement,
                    memberFunctionElement}
      then Some [str ''.'', str '','', str ''('']
      else None)"

text \<open>
  \<open>s.split(/\s+/g)\<close>: the pieces between maximal runs of white space; a run at either
  end leaves an empty piece there.
\<close>

function splitWhitespace :: "jsstring \<Rightarrow> jsstring \<Rightarrow> jsstring list" where
  "splitWhitespace acc [] = [acc]"
| "splitWhitespace acc (c # cs) =
     (if isWhiteSpace c then acc # splitWhitespace [] (dropWhile isWhiteSpace cs)
      else splitWhitespace (acc @ [c]) cs)"
  by pat_completeness auto
termination
  by (relation "measure (\<lambda>(acc, s). length s)") (auto simp: length_dropWhile_le less_Suc_eq_le)

text \<open>
  \<open>toLowerCase\<close>, restricted to the letters A to Z; the source applies it to a file
  name that is compared with the file extensions above.
\<close>

definition toLowerCase :: "jsstring \<Rightarrow> jsstring" where
  "toLowerCase s = map (\<lambda>c. if 0x0041 \<le> c \<and> c \<le> 0x005A then c + 0x0020 else c) s"

definition scriptDetail :: "CompletionEntry \<Rightarrow> jsstring list \<Rightarrow> jsstring option" where
  "scriptDetail entry mods =
     (case filter (\<lambda>extModifier. extModifier \<in> set mods) fileExtensionKindModifiers of
        [] \<Rightarrow> None
      | extModifier # _ \<Rightarrow>
          (if endsWith (toLowerCase (name entry)) extModifier then Some (name entry)
           else Some (name entry @ extModifier)))"

definition asCompletionItem ::
  "CompletionEntry \<Rightarrow> jsstring \<Rightarrow> Position \<Rightarrow> LspDocument \<Rightarrow> TSCompletionItem" where
  "asCompletionItem entry file position document =
     (let item0 = \<lparr>label = name entry,
                   item_kind = asCompletionItemKind (kind entry),
                   item_sortText = (if truthy (source entry) then [0xFFFF] @ sortText entry
                                    else sortText entry),
                   commitCharacters = asCommitCharacters (kind entry),
                   data = \<lparr>data_file = file,
                           data_line = line position + 1,
                           data_offset = character position + 1,
                           entryNames = [if truthy (source entry)
                                         then EntryNameSource (name entry) (the (source entry))
                                         else EntryNameOnly (name entry)]\<rparr>,
                   filterText = insertText entry,
                   item_insertText = insertText entry,
                   preselect = (if isRecommended entry then Some True else None),
                   insertTextFormat =
                     (if asCompletionItemKind (kind entry) = CIK_Function
                         \<or> asCompletionItemKind (kind entry) = CIK_Method
                      then Some Snippet else None),
                   detail = None,
                   textEdit = None\<rparr>;
          insText0 = insertText entry;
          ln = getLine document (line position + 1);
          item1 = item0\<lparr>filterText := getFilterText ln insText0 entry position document\<rparr>;
          replacementRange0 = map_option asRange (replacementSpan entry);
          replacementRange =
            (case replacementRange0 of
               None \<Rightarrow> None
             | Some r \<Rightarrow>
                 (if line (start r) \<noteq> line (endp r)
                  then Some (Range_create (start r) (getLineEnd document (line (start r))))
                  else Some r));
          mods = (if truthy (kindModifiers entry)
                  then splitWhitespace [] (the (kindModifiers entry)) else []);
          isOptional = (truthy (kindModifiers entry) \<and> KindModifiers_optional \<in> set mods);
          insText = (if isOptional \<and> \<not> truthy insText0 then Some (label item1) else insText0);
          item2 = (if isOptional
                   then item1\<lparr>filterText := (if \<not> truthy (filterText item1)
                                               then Some (label item1) else filterText item1),
                              label := label item1 @ str ''?''\<rparr>
                   else item1);
          item3 = (if truthy (kindModifiers entry) \<and> kind entry = scriptElement
                   then (case scriptDetail entry mods of
                           None \<Rightarrow> item2
                         | Some dt \<Rightarrow> item2\<lparr>detail := Some dt\<rparr>)
                   else item2)
      in if truthy insText \<and> replacementRange \<noteq> None
         then item3\<lparr>textEdit := Some \<lparr>edit_range = the replacementRange,
                                       newText = the insText\<rparr>\<rparr>
         else item3\<lparr>item_insertText := insText\<rparr>)"

section \<open>The tsserver client (tsp-client.ts)\<close>

text \<open>
  The commands the server sends (\<open>CommandTypes\<close> of tsp-command-types.ts): every
  command that lsp-server.ts passes to \<open>notify\<close> or \<open>request\<close>. Their arguments are
  modelled for the handlers the claims are about and for \<open>initialize\<close>; the arguments of
  another request are \<open>OtherRequestArgs\<close>, their JSON text. \<open>CompletionsRequestArgs\<close>
  also carries the three flags the source always sets to true. The compiler options of
  \<open>initialize\<close> are a list of names and values.
\<close>

datatype CommandTypes =
    Open | Close | Change | Geterr | CompletionInfo | CompletionDetails | Quickinfo
  | SignatureHelp | Configure | CompilerOptionsForInferredProjects | Definition
  | Implementation | TypeDefinition | NavTree | Rename | References | Format | GetCodeFixes
  | GetApplicableRefactors | ApplyCodeActionCommand | GetEditsForRefactor | OrganizeImports
  | GetEditsForFileRename | DocumentHighlights | Navto | GetOutliningSpans

datatype RequestArgs =
    OpenRequestArgs (open_file: jsstring) (fileContent: jsstring)
      (scriptKindName: "jsstring option") (projectRootPath: "jsstring option")
  | FileRequestArgs (close_file: jsstring)
  | ChangeRequestArgs (chg_file: jsstring) (chg_line: int) (chg_offset: int)
      (chg_endLine: int) (chg_endOffset: int) (insertString: jsstring)
  | GeterrRequestArgs (delay: int) (geterr_files: "jsstring list")
  | CompletionsRequestArgs (compl_file: jsstring) (compl_line: int) (compl_offset: int)
      (triggerCharacter: "jsstring option")
  | CompletionDetailsArgs CompletionDetailsRequestArgs
  | FileLocationRequestArgs (loc_file: jsstring) (floc_line: int) (floc_offset: int)
  | ConfigureRequestArguments (hostInfo: jsstring) (allowRenameOfImportPath: bool)
      (providePrefixAndSuffixTextForRename: bool)
  | SetCompilerOptionsForInferredProjectsArgs (options: "(jsstring \<times> jsstring) list")
  | OtherRequestArgs jsstring

record Request =
  command :: CommandTypes
  req_seq :: nat
  arguments :: "RequestArgs option"

text \<open>
  A message read from tsserver, with the fields the source reads: \<open>type\<close>,
  \<open>request_seq\<close>, \<open>success\<close> (as a condition), \<open>event\<close>, \<open>body\<close> and, for a
  failed response, \<open>message\<close>. A missing \<open>type\<close> or \<open>event\<close> is the empty
  string, which equals none of the strings they are compared with; a missing
  \<open>request_seq\<close> is \<open>None\<close>. \<open>JSON.parse\<close> returns \<open>null\<close> or such a value, or
  throws.
\<close>

record CompletionInfoBody =
  isNewIdentifierLocation :: bool
  isMemberCompletion :: bool
  entries :: "CompletionEntry list"

datatype Body =
    RequestCompletedBody "nat option"
  | CompletionBody CompletionInfoBody
  | OtherBody

record Message =
  msg_type :: jsstring
  request_seq :: "nat option"
  success :: bool
  event :: jsstring
  body :: "Body option"
  message_text :: "jsstring option"

datatype Parsed = JsonNull | JsonValue Message

datatype error =
    SyntaxError
  | TypeError
  | Error jsstring
  | RejectedWith Message

text \<open>
  Modelled from the spec: \<open>Deferred\<close> of utils.ts, which is not among the sources: a
  one-shot completion slot that resolves with the decoded response or fails with an error,
  with no timeout of its own. The promise of the request with sequence number \<open>s\<close> is
  identified by \<open>s\<close>; every call of \<open>resolve\<close> or \<open>reject\<close> on its \<open>Deferred\<close>
  is appended to \<open>settled\<close>.
\<close>

record Deferred =
  operation :: CommandTypes

datatype Settlement = Resolved Message | Rejected Message

datatype LogEntry =
    LogSend bool Request
  | LogProcessMessage Parsed
  | LogRequestCompleted "nat option" bool

text \<open>
  The state of a started client: the counter \<open>seq\<close>, the table \<open>deferreds\<close>, what
  has been written to the standard input of tsserver, what has been logged, the events
  handed to \<open>options.onEvent\<close>, the cancellation listeners that \<open>request\<close> registered
  (token source to sequence number), and the sequence numbers \<open>s\<close> for which the
  cancellation file \<open>cancellationPipeName + s\<close> has been written.
\<close>

record TspClient =
  seq :: nat
  deferreds :: "nat \<rightharpoonup> Deferred"
  stdin_written :: "Request list"
  logged :: "LogEntry list"
  settled :: "(nat \<times> Settlement) list"
  hasOnEvent :: bool
  forwarded :: "Message list"
  cancellationPipeName :: "jsstring option"
  onCancelled :: "nat \<rightharpoonup> nat"
  cancellationFiles :: "nat list"

definition sendMessage :: "TspClient \<Rightarrow> CommandTypes \<Rightarrow> bool \<Rightarrow> RequestArgs option \<Rightarrow> TspClient" where
  "sendMessage c cmd notification args =
     (let c1 = c\<lparr>seq := seq c + 1\<rparr>;
          request = \<lparr>command = cmd, req_seq = seq c1, arguments = args\<rparr>
      in c1\<lparr>stdin_written := stdin_written c1 @ [request],
            logged := logged c1 @ [LogSend notification request]\<rparr>)"

definition notify :: "TspClient \<Rightarrow> CommandTypes \<Rightarrow> RequestArgs \<Rightarrow> TspClient" where
  "notify c cmd args = sendMessage c cmd True (Some args)"

text \<open>
  \<open>request\<close> returns the promise, here the sequence number that identifies it. The
  optional token is the identity of its cancellation token source.
\<close>

definition request ::
  "TspClient \<Rightarrow> CommandTypes \<Rightarrow> RequestArgs option \<Rightarrow> nat option \<Rightarrow> nat \<times> TspClient" where
  "request c cmd args token =
     (let c1 = sendMessage c cmd False args;
          s = seq c1;
          c2 = c1\<lparr>deferreds := (deferreds c1)(s \<mapsto> \<lparr>operation = cmd\<rparr>)\<rparr>
      in case token of
           None \<Rightarrow> (s, c2)
         | Some t \<Rightarrow> (s, c2\<lparr>onCancelled := (onCancelled c2)(t \<mapsto> s)\<rparr>))"

text \<open>
  The listener that \<open>request\<close> registers on the token: disposed when it runs, it
  writes the cancellation file of its request when the pipe name is set.
\<close>

definition tokenCancelled :: "TspClient \<Rightarrow> nat \<Rightarrow> TspClient" where
  "tokenCancelled c t =
     (case onCancelled c t of
        None \<Rightarrow> c
      | Some s \<Rightarrow>
          (let c1 = c\<lparr>onCancelled := (onCancelled c)(t := None)\<rparr>
           in if truthy (cancellationPipeName c1)
              then c1\<lparr>cancellationFiles := cancellationFiles c1 @ [s]\<rparr> else c1))"

definition isEvent :: "Message \<Rightarrow> bool" where
  "isEvent m = (msg_type m = str ''event'')"

definition isResponse :: "Message \<Rightarrow> bool" where
  "isResponse m = (msg_type m = str ''response'')"

definition isRequestCompletedEvent :: "Message \<Rightarrow> bool" where
  "isRequestCompletedEvent m = (isEvent m \<and> event m = str ''requestCompleted'')"

definition resolveResponse :: "TspClient \<Rightarrow> Message \<Rightarrow> nat option \<Rightarrow> bool \<Rightarrow> TspClient" where
  "resolveResponse c m rseq succ =
     (let deferred = (case rseq of None \<Rightarrow> None | Some s \<Rightarrow> deferreds c s);
          c1 = c\<lparr>logged := logged c @ [LogRequestCompleted rseq succ]\<rparr>
      in case deferred of
           None \<Rightarrow> c1
         | Some d \<Rightarrow>
             c1\<lparr>settled := settled c1 @ [(the rseq, if succ then Resolved m else Rejected m)],
                deferreds := (deferreds c1)(the rseq := None)\<rparr>)"

text \<open>
  \<open>processMessage\<close>, for any \<open>JSON.parse\<close> (\<open>None\<close> where it throws). The result
  is the exception that leaves the handler of the line event, if any, and the client as the
  handler leaves it.
\<close>

definition processMessage ::
  "(jsstring \<Rightarrow> Parsed option) \<Rightarrow> TspClient \<Rightarrow> jsstring \<Rightarrow> error option \<times> TspClient" where
  "processMessage parse c untrimmedMessageString =
     (let messageString = trim untrimmedMessageString in
      if messageString = [] \<or> startsWith messageString (str ''Content-Length:'') then (None, c)
      else
        case parse messageString of
          None \<Rightarrow> (Some SyntaxError, c)
        | Some parsed \<Rightarrow>
            (let c1 = c\<lparr>logged := logged c @ [LogProcessMessage parsed]\<rparr> in
             case parsed of
               JsonNull \<Rightarrow> (Some TypeError, c1)
             | JsonValue m \<Rightarrow>
                 if isResponse m then (None, resolveResponse c1 m (request_seq m) (success m))
                 else if isEvent m then
                   (if isRequestCompletedEvent m then
                      (case body m of
                         None \<Rightarrow> (Some TypeError, c1)
                       | Some (RequestCompletedBody rs) \<Rightarrow> (None, resolveResponse c1 m rs True)
                       | Some _ \<Rightarrow> (None, resolveResponse c1 m None True))
                    else if hasOnEvent c1 then (None, c1\<lparr>forwarded := forwarded c1 @ [m]\<rparr>)
                    else (None, c1))
                 else (None, c1)))"




definition startedClient :: "jsstring \<Rightarrow> TspClient" where
  "startedClient pipeName =
     \<lparr>seq = 0, deferreds = Map.empty, stdin_written = [], logged = [], settled = [],
      hasOnEvent = True, forwarded = [], cancellationPipeName = Some pipeName,
      onCancelled = Map.empty, cancellationFiles = []\<rparr>"


section \<open>The dispatcher (lsp-server.ts)\<close>

record PublishDiagnosticsParams =
  pd_uri :: jsstring
  diagnostics :: "jsstring list"

text \<open>
  The state of the server once \<open>initialize\<close> has created the client: the document
  mirror, the client, the
  root of \<open>initializeParams\<close>, the current \<open>diagnosticsTokenSource\<close> (token sources
  are numbered as they are created), whether the debounced \<open>requestDiagnostics\<close> is
  waiting for its 200 ms to pass, the calls of \<open>doRequestDiagnostics\<close> that are
  suspended at their \<open>await\<close> (sequence number of the \<open>geterr\<close> to the token source
  the call created), and what has been handed to \<open>lspClient.publishDiagnostics\<close>.
  Calls of the server's logger are not modelled.
\<close>

record LspServer =
  lsp_documents :: LspDocuments
  tspClient :: TspClient
  rootUri :: "jsstring option"
  rootPath_param :: "jsstring option"
  diagnosticsTokenSource :: "nat option"
  tokenSourcesCreated :: nat
  diagnosticsScheduled :: bool
  geterrAwaiting :: "nat \<rightharpoonup> nat"
  published :: "PublishDiagnosticsParams list"

text \<open>
  \<open>uriToPath\<close> of protocol-translation.ts is not among the sources; the handlers take
  it as the parameter \<open>u2p\<close>.
\<close>

definition rootPath :: "(jsstring \<Rightarrow> jsstring option) \<Rightarrow> LspServer \<Rightarrow> jsstring option" where
  "rootPath u2p st = (if truthy (rootUri st) then u2p (the (rootUri st)) else rootPath_param st)"

definition cancelDiagnostics :: "LspServer \<Rightarrow> LspServer" where
  "cancelDiagnostics st =
     (case diagnosticsTokenSource st of
        None \<Rightarrow> st
      | Some t \<Rightarrow> st\<lparr>tspClient := tokenCancelled (tspClient st) t,
                      diagnosticsTokenSource := None\<rparr>)"

text \<open>\<open>requestDiagnostics\<close> is the debounced function: a call (re)starts the 200 ms.\<close>

definition requestDiagnostics :: "LspServer \<Rightarrow> LspServer" where
  "requestDiagnostics st = st\<lparr>diagnosticsScheduled := True\<rparr>"




definition interuptDiagnostics :: "(LspServer \<Rightarrow> 'r \<times> LspServer) \<Rightarrow> LspServer \<Rightarrow> 'r \<times> LspServer" where
  "interuptDiagnostics f st =
     (if diagnosticsTokenSource st = None then f st
      else
        let st1 = cancelDiagnostics st;
            (result, st2) = f st1
        in (result, requestDiagnostics st2))"

text \<open>\<open>() => this.tspClient.request(command, args)\<close>, the function the reads interrupt with.\<close>

definition tspRequest :: "CommandTypes \<Rightarrow> RequestArgs option \<Rightarrow> LspServer \<Rightarrow> nat \<times> LspServer" where
  "tspRequest cmd args st =
     (let (s, c) = request (tspClient st) cmd args None in (s, st\<lparr>tspClient := c\<rparr>))"


definition getScriptKindName :: "jsstring \<Rightarrow> jsstring option" where
  "getScriptKindName lang =
     (if lang = str ''typescript'' then Some (str ''TS'')
      else if lang = str ''typescriptreact'' then Some (str ''TSX'')
      else if lang = str ''javascript'' then Some (str ''JS'')
      else if lang = str ''javascriptreact'' then Some (str ''JSX'')
      else None)"

record DidChangeTextDocumentParams =
  chg_uri :: jsstring
  chg_version :: "int option"
  contentChanges :: "TextDocumentContentChangeEvent list"

text \<open>
  The body of the loop of \<open>didChangeTextDocument\<close>: one \<open>change\<close> notification, then
  the edit of the mirrored document.
\<close>

definition changeStep ::
  "jsstring \<Rightarrow> int \<Rightarrow> TspClient \<times> LspDocument \<Rightarrow> TextDocumentContentChangeEvent \<Rightarrow> TspClient \<times> LspDocument" where
  "changeStep file ver cd change =
     (let c = fst cd; document = snd cd;
          endPos = positionAt document (int (length (getText document None)));
          args = (case change_range change of
                    Some rg \<Rightarrow>
                      ChangeRequestArgs file (line (start rg) + 1) (character (start rg) + 1)
                        (line (endp rg) + 1) (character (endp rg) + 1) (change_text change)
                  | None \<Rightarrow>
                      ChangeRequestArgs file 1 1 (line endPos + 1) (character endPos + 1)
                        (change_text change))
      in (notify c Change args, applyEdit document ver change))"

definition didChangeTextDocument ::
  "(jsstring \<Rightarrow> jsstring option) \<Rightarrow> LspServer \<Rightarrow> DidChangeTextDocumentParams \<Rightarrow> error option \<times> LspServer" where
  "didChangeTextDocument u2p st params =
     (let file = u2p (chg_uri params) in
      if \<not> truthy file then (None, st)
      else
        let (document, ds) = LspDocuments_get (lsp_documents st) (the file);
            st1 = st\<lparr>lsp_documents := ds\<rparr>
        in case document of
             None \<Rightarrow>
               (Some (Error (str ''Received change on non-opened document '' @ chg_uri params)), st1)
           | Some doc \<Rightarrow>
               (case chg_version params of
                  None \<Rightarrow>
                    (Some (Error (str ''Received document change event for '' @ chg_uri params
                                  @ str '' without valid version identifier'')), st1)
                | Some ver \<Rightarrow>
                    (let (c, doc') = foldl (changeStep (the file) ver) (tspClient st1, doc)
                                       (contentChanges params);
                         st2 = st1\<lparr>tspClient := c,
                                   lsp_documents :=
                                     ds\<lparr>documents := (documents ds)(the file \<mapsto> doc')\<rparr>\<rparr>
                     in (None, requestDiagnostics st2))))"

definition didOpenTextDocument ::
  "(jsstring \<Rightarrow> jsstring option) \<Rightarrow> LspServer \<Rightarrow> TextDocumentItem \<Rightarrow> error option \<times> LspServer" where
  "didOpenTextDocument u2p st textDocument =
     (let file = u2p (item_uri textDocument) in
      if \<not> truthy file then (None, st)
      else
        let (opened, ds) = LspDocuments_open (lsp_documents st) (the file) textDocument in
        if opened then
          (None,
           requestDiagnostics
             (st\<lparr>lsp_documents := ds,
                 tspClient :=
                   notify (tspClient st) Open
                     (OpenRequestArgs (the file) (item_text textDocument)
                        (getScriptKindName (item_languageId textDocument)) (rootPath u2p st))\<rparr>))
        else
          didChangeTextDocument u2p (st\<lparr>lsp_documents := ds\<rparr>)
            \<lparr>chg_uri = item_uri textDocument,
             chg_version = Some (item_version textDocument),
             contentChanges = [\<lparr>change_range = None, change_text = item_text textDocument\<rparr>]\<rparr>)"

definition closeDocument :: "LspServer \<Rightarrow> jsstring \<Rightarrow> LspServer" where
  "closeDocument st file =
     (let (document, ds) = LspDocuments_close (lsp_documents st) file in
      case document of
        None \<Rightarrow> st\<lparr>lsp_documents := ds\<rparr>
      | Some doc \<Rightarrow>
          st\<lparr>lsp_documents := ds,
             tspClient := notify (tspClient st) Close (FileRequestArgs file),
             published := published st @ [\<lparr>pd_uri = uri doc, diagnostics = []\<rparr>]\<rparr>)"

definition didCloseTextDocument ::
  "(jsstring \<Rightarrow> jsstring option) \<Rightarrow> LspServer \<Rightarrow> jsstring \<Rightarrow> LspServer" where
  "didCloseTextDocument u2p st textDocument_uri =
     (let file = u2p textDocument_uri in
      if \<not> truthy file then st else closeDocument st (the file))"


record CompletionConfiguration =
  useCodeSnippetsOnMethodSuggest :: bool
  nameSuggestions :: bool
  pathSuggestions :: bool
  autoImportSuggestions :: bool
  includeAutomaticOptionalChainCompletions :: bool

definition showExcludeCompletionEntry :: "CompletionEntry \<Rightarrow> CompletionConfiguration \<Rightarrow> bool" where
  "showExcludeCompletionEntry element completionConfiguration =
     ((\<not> nameSuggestions completionConfiguration \<and> kind element = warning)
      \<or> (\<not> pathSuggestions completionConfiguration
          \<and> (kind element = directory \<or> kind element = scriptElement
               \<or> kind element = externalModuleName))
      \<or> (\<not> autoImportSuggestions completionConfiguration \<and> hasAction element))"

record DotAccessorContext =
  dot_range :: Range
  dot_text :: jsstring

record CompletionParams =
  cp_uri :: jsstring
  cp_position :: Position
  cp_triggerCharacter :: "jsstring option"

record CompletionList =
  isIncomplete :: bool
  items :: "TSCompletionItem list"

text \<open>
  \<open>prefix.match(/\??\.\s*$/)\<close>: the matched text. A match ends at the end of the
  prefix and holds one dot, followed by white space only; the search takes the leftmost
  start, so the question mark before the dot belongs to the match when there is one.
\<close>

definition dotMatch :: "jsstring \<Rightarrow> jsstring option" where
  "dotMatch prefix =
     (let ws = rev (takeWhile isWhiteSpace (rev prefix));
          before = dropWhile isWhiteSpace (rev prefix)
      in case before of
           [] \<Rightarrow> None
         | c # others \<Rightarrow>
             (if c = of_char CHR ''.'' then
                (case others of
                   [] \<Rightarrow> Some (str ''.'' @ ws)
                 | q # _ \<Rightarrow> (if q = of_char CHR ''?'' then Some (str ''?.'' @ ws)
                             else Some (str ''.'' @ ws)))
              else None))"

text \<open>The dot-accessor context that \<open>completion\<close> computes for a member completion.\<close>

definition dotAccessorContextAt :: "LspDocument \<Rightarrow> Position \<Rightarrow> DotAccessorContext option" where
  "dotAccessorContextAt document position =
     (let ln = lineAt document (line position) in
      case dotMatch (slice ln 0 (character position)) of
        None \<Rightarrow> None
      | Some m \<Rightarrow>
          (let range = Range_create
                         (Position_create (line position) (character position - int (length m)))
                         position
           in Some \<lparr>dot_range = range, dot_text = getText document (Some range)\<rparr>))"

text \<open>
  \<open>completion\<close>. The parameter \<open>reply\<close> is how the promise of the
  \<open>completionInfo\<close> request is settled; the result is the exception thrown (\<open>Inl\<close>)
  or the value returned, \<open>None\<close> for \<open>null\<close>. The call of \<open>asCompletionItem\<close>
  passes a fifth argument, an object that holds \<open>isMemberCompletion\<close> and
  \<open>dotAccessorContext\<close>; \<open>asCompletionItem\<close> of completion.ts has four parameters,
  so the argument is computed and then left unused.
\<close>

definition completion ::
  "(jsstring \<Rightarrow> jsstring option) \<Rightarrow> LspServer \<Rightarrow> CompletionParams \<Rightarrow> Settlement
     \<Rightarrow> (error + CompletionList option) \<times> LspServer" where
  "completion u2p st params reply =
     (let file = u2p (cp_uri params) in
      if \<not> truthy file then (Inr (Some \<lparr>isIncomplete = False, items = []\<rparr>), st)
      else
        let (document, ds) = LspDocuments_get (lsp_documents st) (the file);
            st1 = st\<lparr>lsp_documents := ds\<rparr>
        in case document of
             None \<Rightarrow>
               (Inl (Error (str ''The document should be opened for completion, file: ''
                            @ the file)), st1)
           | Some doc \<Rightarrow>
               (let args = CompletionsRequestArgs (the file) (line (cp_position params) + 1)
                             (character (cp_position params) + 1) (cp_triggerCharacter params);
                    (s, st2) = interuptDiagnostics (tspRequest CompletionInfo (Some args)) st1
                in case reply of
                     Rejected err \<Rightarrow>
                       (if message_text err = Some (str ''No content available.'')
                        then (Inr None, st2) else (Inl (RejectedWith err), st2))
                   | Resolved result \<Rightarrow>
                       (if msg_type result \<noteq> str ''response'' \<or> body result = None
                        then (Inr None, st2)
                        else
                          case the (body result) of
                            CompletionBody info \<Rightarrow>
                              (let dotAccessorContext =
                                     (if isMemberCompletion info
                                      then dotAccessorContextAt doc (cp_position params)
                                      else None);
                                   completionConfiguration =
                                     \<lparr>useCodeSnippetsOnMethodSuggest = False,
                                      nameSuggestions = True,
                                      pathSuggestions = True,
                                      autoImportSuggestions = True,
                                      includeAutomaticOptionalChainCompletions = True\<rparr>;
                                   its =
                                     map (\<lambda>entry. asCompletionItem entry (the file)
                                                     (cp_position params) doc)
                                       (filter (\<lambda>entry. \<not> showExcludeCompletionEntry entry
                                                              completionConfiguration)
                                          (entries info))
                               in (Inr (Some \<lparr>isIncomplete = False, items = its\<rparr>), st2))
                          | _ \<Rightarrow> (Inl TypeError, st2))))"

section \<open>Runs of the server\<close>


definition startedServer :: "jsstring \<Rightarrow> LspServer" where
  "startedServer pipeName =
     \<lparr>lsp_documents = \<lparr>files = [], documents = Map.empty\<rparr>,
      tspClient = startedClient pipeName,
      rootUri = None, rootPath_param = None,
      diagnosticsTokenSource = None, tokenSourcesCreated = 0,
      diagnosticsScheduled = False, geterrAwaiting = Map.empty, published = []\<rparr>"











section \<open>Examples\<close>

text \<open>
  Concrete inputs for the examples below: an instance of \<open>uriToPath\<close> that strips
  \<open>file://\<close> from a uri without escapes, a document item for \<open>/a.ts\<close>, the server
  in which this document is open and nothing has been sent yet, and a failed response.
\<close>

definition fileUriToPath :: "jsstring \<Rightarrow> jsstring option" where
  "fileUriToPath u = (if startsWith u (str ''file://'') then Some (drop 7 u) else None)"

definition exampleItem :: "jsstring \<Rightarrow> TextDocumentItem" where
  "exampleItem t =
     \<lparr>item_uri = str ''file:///a.ts'', item_languageId = str ''typescript'',
      item_version = 1, item_text = t\<rparr>"

definition exampleServer :: "jsstring \<Rightarrow> LspServer" where
  "exampleServer t =
     (startedServer (str ''/tmp/tscancellation''))
       \<lparr>lsp_documents := \<lparr>files = [str ''/a.ts''],
                           documents = [str ''/a.ts'' \<mapsto> LspDocument_new (exampleItem t)]\<rparr>\<rparr>"

definition failedResponse :: "nat \<Rightarrow> jsstring \<Rightarrow> Message" where
  "failedResponse s t =
     \<lparr>msg_type = str ''response'', request_seq = Some s, success = False, event = [],
      body = None, message_text = Some t\<rparr>"

section \<open>Predicates and examples for the client\<close>


definition okResponse :: "nat \<Rightarrow> Message" where
  "okResponse s =
     \<lparr>msg_type = str ''response'', request_seq = Some s, success = True, event = [],
      body = Some OtherBody, message_text = None\<rparr>"

definition requestCompletedEvent :: "nat \<Rightarrow> Message" where
  "requestCompletedEvent s =
     \<lparr>msg_type = str ''event'', request_seq = None, success = False,
      event = str ''requestCompleted'', body = Some (RequestCompletedBody (Some s)),
      message_text = None\<rparr>"

definition responseLine :: jsstring where
  \<open>responseLine = str ''{"type":"response","request_seq":1,"success":true,"body":{}}''\<close>

definition failedResponseLine :: jsstring where
  \<open>failedResponseLine =
     str ''{"type":"response","request_seq":1,"success":false,"message":"No content available."}''\<close>

definition requestCompletedLine :: jsstring where
  \<open>requestCompletedLine = str ''{"type":"event","event":"requestCompleted","body":{"request_seq":1}}''\<close>

definition exampleParse :: "jsstring \<Rightarrow> Parsed option" where
  "exampleParse l =
     (if l = responseLine then Some (JsonValue (okResponse 1))
      else if l = failedResponseLine
      then Some (JsonValue (failedResponse 1 (str ''No content available.'')))
      else if l = requestCompletedLine then Some (JsonValue (requestCompletedEvent 1))
      else None)"

definition requestSent :: TspClient where
  "requestSent = snd (request (startedClient (str ''/tmp/tscancellation'')) Quickinfo None None)"




section \<open>The filter text of the claims, and examples for completion\<close>

text \<open>
  \<open>specBracketAccessorGroup\<close> and \<open>specFilterText\<close> follow the words of the
  specification, not the source: the regular expression
  \<^verbatim>\<open>^\[['"](.+)['"]\]$\<close>, and the filter text of an entry whose name does not start
  with \<open>#\<close>. They are compared with \<open>getFilterText\<close> below. The examples are an entry
  of a member completion, the document of \<open>exampleItem\<close> and a response to
  \<open>completionInfo\<close>.
\<close>

definition specBracketAccessorGroup :: "jsstring \<Rightarrow> jsstring option" where
  "specBracketAccessorGroup s =
     (let n = length s in
      if 5 \<le> n
         \<and> s ! 0 = of_char CHR ''[''
         \<and> (s ! 1 = of_char CHR 0x27 \<or> s ! 1 = of_char CHR 0x22)
         \<and> (s ! (n - 2) = of_char CHR 0x27 \<or> s ! (n - 2) = of_char CHR 0x22)
         \<and> s ! (n - 1) = of_char CHR '']''
         \<and> \<not> list_ex isLineTerminator (take (n - 4) (drop 2 s))
      then Some (take (n - 4) (drop 2 s)) else None)"

definition specFilterText :: "jsstring option \<Rightarrow> jsstring option" where
  "specFilterText insText =
     (case insText of
        None \<Rightarrow> None
      | Some t \<Rightarrow>
          (if startsWith t (str ''this.'') then None
           else case specBracketAccessorGroup t of
                  Some g \<Rightarrow> Some (str ''.'' @ g)
                | None \<Rightarrow> Some t))"

definition exampleEntry :: "jsstring \<Rightarrow> jsstring option \<Rightarrow> CompletionEntry" where
  "exampleEntry n ins =
     \<lparr>name = n, kind = memberVariableElement, kindModifiers = None, sortText = str ''0'',
      insertText = ins, replacementSpan = None, hasAction = False, source = None,
      isRecommended = False\<rparr>"

definition exampleDocument :: "jsstring \<Rightarrow> LspDocument" where
  "exampleDocument t = LspDocument_new (exampleItem t)"

definition completionResponse :: "nat \<Rightarrow> bool \<Rightarrow> CompletionEntry list \<Rightarrow> Message" where
  "completionResponse s member es =
     \<lparr>msg_type = str ''response'', request_seq = Some s, success = True, event = [],
      body = Some (CompletionBody \<lparr>isNewIdentifierLocation = False, isMemberCompletion = member,
                                   entries = es\<rparr>),
      message_text = None\<rparr>"

section \<open>Containment of positions (util/position.ts, util/range.ts), and an example of a span\<close>

text \<open>
  \<open>PositionUtil.isBefore\<close> and \<open>RangeUtil.contains\<close> for a position. The example is
  a member that is completed on the line after its dot: the document of the two lines
  \<open>x.\<close> and \<open>fo\<close>, and the entry \<open>foo\<close> with the insert text \<open>?.foo\<close>, whose
  replacement span runs from the dot on the first line to the end of \<open>fo\<close> on the
  second (tsserver counts lines and offsets from 1).
\<close>

definition isBefore :: "Position \<Rightarrow> Position \<Rightarrow> bool" where
  "isBefore pos other =
     (if line pos < line other then True
      else if line other < line pos then False
      else character pos < character other)"

definition Range_contains :: "Range \<Rightarrow> Position \<Rightarrow> bool" where
  "Range_contains this position =
     (if isBefore position (start this) then False
      else if isBefore (endp this) position then False
      else True)"

definition chainDocument :: LspDocument where
  "chainDocument = LspDocument_new (exampleItem (str ''x.'' @ [0x000A] @ str ''fo''))"

definition chainEntry :: CompletionEntry where
  "chainEntry =
     \<lparr>name = str ''foo'', kind = memberVariableElement, kindModifiers = None, sortText = str ''0'',
      insertText = Some (str ''?.foo''),
      replacementSpan = Some \<lparr>span_start = \<lparr>loc_line = 1, loc_offset = 2\<rparr>,
                               span_end = \<lparr>loc_line = 2, loc_offset = 3\<rparr>\<rparr>,
      hasAction = False, source = None, isRecommended = False\<rparr>"

section \<open>The invariant of the diagnostics requests\<close>








section \<open>Line offsets of a text document\<close>

lemma line_starts_bounds: "x \<in> set (line_starts i s) \<Longrightarrow> i < x \<and> x \<le> i + int (length s)"
  by (induction i s rule: line_starts.induct) (fastforce split: if_splits)+

lemma line_starts_sorted: "sorted_wrt (<) (line_starts i s)"
proof (induction i s rule: line_starts.induct)
  case (3 i c d cs)
  then show ?case
    using line_starts_bounds[of _ "i + 2" cs] line_starts_bounds[of _ "i + 1" "d # cs"]
    by (auto split: if_splits)
qed auto

lemma getLineOffsets_bounds: "x \<in> set (getLineOffsets d) \<Longrightarrow> 0 \<le> x \<and> x \<le> int (length (content d))"
  using line_starts_bounds[of x 0 "content d"] by (auto simp: getLineOffsets_def split: if_splits)

lemma getLineOffsets_sorted: "sorted_wrt (<) (getLineOffsets d)"
  using line_starts_sorted[of 0 "content d"] line_starts_bounds[of _ 0 "content d"]
  by (auto simp: getLineOffsets_def)

lemma offsetAt_bounds: "0 \<le> offsetAt d p \<and> offsetAt d p \<le> int (length (content d))"
proof -
  let ?lo = "getLineOffsets d"
  show ?thesis
  proof (cases "line p \<ge> int (length ?lo) \<or> line p < 0")
    case True
    then show ?thesis by (auto simp: offsetAt_def Let_def)
  next
    case False
    then have l: "0 \<le> line p" "nat (line p) < length ?lo" by auto
    then have a: "?lo ! nat (line p) \<in> set ?lo" by simp
    have b: "0 \<le> ?lo ! nat (line p)" "?lo ! nat (line p) \<le> int (length (content d))"
      using getLineOffsets_bounds[OF a] by auto
    show ?thesis
    proof (cases "line p + 1 < int (length ?lo)")
      case True
      then have n1: "nat (line p + 1) < length ?lo" using l by linarith
      then have c: "?lo ! nat (line p + 1) \<in> set ?lo" by simp
      have "nat (line p) < nat (line p + 1)" using l by auto
      then have "?lo ! nat (line p) < ?lo ! nat (line p + 1)"
        using getLineOffsets_sorted[of d] n1
        by (simp add: sorted_wrt_nth_less)
      then show ?thesis using False True b getLineOffsets_bounds[OF c]
        by (auto simp: offsetAt_def Let_def)
    next
      case F2: False
      then show ?thesis using False b by (auto simp: offsetAt_def Let_def)
    qed
  qed
qed

lemma substr_prefix: "0 \<le> n \<Longrightarrow> n \<le> int (length s) \<Longrightarrow> substr s 0 (Some n) = take (nat n) s"
  by (simp add: substr_def Let_def min_def max_def)

lemma substr_suffix:
  assumes "0 \<le> n" "n \<le> int (length s)"
  shows "substr s n None = drop (nat n) s"
  using assms by (simp add: substr_def Let_def min_def max_def; linarith)

section \<open>The open-document set\<close>

lemma indexOf_mem: "x \<in> set xs \<Longrightarrow> 0 \<le> indexOf xs x \<and> indexOf xs x < int (length xs)"
  by (induction xs) (auto simp: Let_def)

lemma splice1_Cons: "0 \<le> i \<Longrightarrow> i < int (length ys) \<Longrightarrow> splice1 (y # ys) (i + 1) = y # splice1 ys i"
proof -
  assume a: "0 \<le> i" "i < int (length ys)"
  then have "nat (i + 1) = Suc (nat i)" by linarith
  then show ?thesis using a by (simp add: splice1_def Let_def min_def)
qed

lemma splice1_indexOf: "x \<in> set xs \<Longrightarrow> splice1 xs (indexOf xs x) = remove1 x xs"
proof (induction xs)
  case (Cons y ys)
  show ?case
  proof (cases "y = x")
    case True then show ?thesis by (simp add: splice1_def)
  next
    case False
    then have m: "x \<in> set ys" using Cons.prems by auto
    have i: "0 \<le> indexOf ys x" "indexOf ys x < int (length ys)" using indexOf_mem[OF m] by auto
    have "indexOf (y # ys) x = indexOf ys x + 1" using False i by (simp add: Let_def)
    then show ?thesis using False Cons.IH[OF m] splice1_Cons[OF i] by simp
  qed
qed simp

section \<open>Edits of a mirrored document\<close>

lemma substring_ordered:
  assumes "0 \<le> a" "a \<le> b" "b \<le> int (length s)"
  shows "substring s a b = take (nat b - nat a) (drop (nat a) s)"
proof -
  have "nat (b - a) = nat b - nat a" using assms by linarith
  then show ?thesis using assms by (simp add: substring_def Let_def min_def max_def)
qed

lemma split_at_two_offsets:
  assumes "a \<le> b" "b \<le> length s"
  shows "s = take a s @ take (b - a) (drop a s) @ drop b s"
proof -
  have "drop a s = take (b - a) (drop a s) @ drop (b - a) (drop a s)"
    by (rule append_take_drop_id[symmetric])
  moreover have "drop (b - a) (drop a s) = drop b s" using assms by simp
  ultimately have "drop a s = take (b - a) (drop a s) @ drop b s" by simp
  then have "take a s @ drop a s = take a s @ take (b - a) (drop a s) @ drop b s" by simp
  then show ?thesis by simp
qed

lemma replacement_length:
  "old = before @ replaced @ after \<Longrightarrow>
     length (before @ new @ after) \<le> length old + length new"
  by simp

text \<open>
  Claim C6, as amended. For every document and every change whose range, when it has one,
  does not end before it starts (\<open>offsetAt\<close> of the start is at most \<open>offsetAt\<close> of the
  end), \<open>applyEdit\<close> replaces a substring of the text: the old text is some \<open>before\<close>,
  \<open>replaced\<close> and \<open>after\<close> in a row, where \<open>before\<close> ends at the offset of the start
  of the range, \<open>replaced\<close> ends at the offset of its end and is the text of the range,
  and the new text is \<open>before\<close>, the text of the change and \<open>after\<close>. With no range the
  new text is the text of the change. The version is the new version afterwards, and the
  uri and the language are kept.
\<close>

theorem applyEdit_text_and_version:
  assumes "\<forall>rg. change_range change = Some rg \<longrightarrow> offsetAt d (start rg) \<le> offsetAt d (endp rg)"
  shows "(case change_range change of
            None \<Rightarrow> content (applyEdit d newVersion change) = change_text change
          | Some rg \<Rightarrow>
              (\<exists>before replaced after.
                  content d = before @ replaced @ after
                \<and> int (length before) = offsetAt d (start rg)
                \<and> int (length (before @ replaced)) = offsetAt d (endp rg)
                \<and> replaced = getText d (Some rg)
                \<and> content (applyEdit d newVersion change) = before @ change_text change @ after))
   \<and> version (applyEdit d newVersion change) = newVersion
   \<and> uri (applyEdit d newVersion change) = uri d
   \<and> languageId (applyEdit d newVersion change) = languageId d"
proof -
  have rest: "version (applyEdit d newVersion change) = newVersion
      \<and> uri (applyEdit d newVersion change) = uri d
      \<and> languageId (applyEdit d newVersion change) = languageId d"
    by (simp add: applyEdit_def TextDocument_create_def Let_def)
  show ?thesis
  proof (cases "change_range change")
    case None
    then have "content (applyEdit d newVersion change) = change_text change"
      by (simp add: applyEdit_def TextDocument_create_def Let_def)
    then show ?thesis using None rest by simp
  next
    case (Some rg)
    let ?c = "content d"
    let ?s = "offsetAt d (start rg)"
    let ?e = "offsetAt d (endp rg)"
    let ?before = "take (nat ?s) ?c"
    let ?replaced = "take (nat ?e - nat ?s) (drop (nat ?s) ?c)"
    let ?after = "drop (nat ?e) ?c"
    have s0: "0 \<le> ?s" and e0: "0 \<le> ?e" and sl: "?s \<le> int (length ?c)" and el: "?e \<le> int (length ?c)"
      using offsetAt_bounds[of d "start rg"] offsetAt_bounds[of d "endp rg"] by simp_all
    have se: "?s \<le> ?e" using assms Some by simp
    have n: "nat ?s \<le> nat ?e" "nat ?e \<le> length ?c" using se s0 el by linarith+
    have 1: "?c = ?before @ ?replaced @ ?after" by (rule split_at_two_offsets[OF n])
    have 2: "int (length ?before) = ?s" using s0 sl by simp
    have 3: "int (length (?before @ ?replaced)) = ?e" using n s0 e0 by simp
    have 4: "?replaced = getText d (Some rg)"
      using substring_ordered[OF s0 se el] by (simp add: getText_def)
    have 5: "content (applyEdit d newVersion change) = ?before @ change_text change @ ?after"
      using Some substr_prefix[OF s0 sl] substr_suffix[of ?e ?c] e0 el
      by (simp add: applyEdit_def getText_def TextDocument_create_def Let_def)
    have "\<exists>before replaced after.
            content d = before @ replaced @ after
          \<and> int (length before) = ?s
          \<and> int (length (before @ replaced)) = ?e
          \<and> replaced = getText d (Some rg)
          \<and> content (applyEdit d newVersion change) = before @ change_text change @ after"
      using 1 2 3 4 5 by blast
    then show ?thesis using Some rest by simp
  qed
qed

text \<open>
  In the document \<open>ab\<close>, \<open>cd\<close> (two lines), the change of the range from 0:1 to 1:1 to
  \<open>X\<close> replaces \<open>b\<close>, the line break and \<open>c\<close>.
\<close>

theorem applyEdit_text_and_version_witness:
  "content (applyEdit \<lparr>uri = str ''file:///a.ts'', languageId = str ''typescript'', version = 1,
                       content = str ''ab'' @ [0x000A] @ str ''cd''\<rparr> 2
              \<lparr>change_range = Some (Range_create4 0 1 1 1), change_text = str ''X''\<rparr>) = str ''aXd''
   \<and> version (applyEdit \<lparr>uri = str ''file:///a.ts'', languageId = str ''typescript'', version = 1,
                       content = str ''ab'' @ [0x000A] @ str ''cd''\<rparr> 2
              \<lparr>change_range = Some (Range_create4 0 1 1 1), change_text = str ''X''\<rparr>) = 2"
proof -
  let ?d = "\<lparr>uri = str ''file:///a.ts'', languageId = str ''typescript'', version = 1,
             content = str ''ab'' @ [0x000A] @ str ''cd''\<rparr>"
  let ?rg = "Range_create4 0 1 1 1"
  let ?ch = "\<lparr>change_range = Some ?rg, change_text = str ''X''\<rparr>"
  have s: "offsetAt ?d (start ?rg) = 1" and e: "offsetAt ?d (endp ?rg) = 4"
    by (simp_all add: offsetAt_def getLineOffsets_def Range_create4_def Range_create_def
          Position_create_def str_def)
  have h: "\<forall>rg. change_range ?ch = Some rg \<longrightarrow> offsetAt ?d (start rg) \<le> offsetAt ?d (endp rg)"
    using s e by simp
  obtain before replaced after where
    b: "content ?d = before @ replaced @ after" "int (length before) = 1"
       "int (length (before @ replaced)) = 4"
       "content (applyEdit ?d 2 ?ch) = before @ str ''X'' @ after"
    and v: "version (applyEdit ?d 2 ?ch) = 2"
    using applyEdit_text_and_version[OF h, of 2] s e by auto
  have c: "content ?d = str ''ab'' @ [0x000A] @ str ''cd''" by simp
  have "before = take 1 (content ?d)"
    using b(1,2) by (metis append_eq_conv_conj nat_int of_nat_1)
  moreover have "after = drop 4 (content ?d)"
  proof -
    have "length (before @ replaced) = 4" using b(3) by linarith
    then show ?thesis using b(1) by (metis append.assoc append_eq_conv_conj)
  qed
  ultimately have "before = str ''a''" "after = str ''d''" by (simp_all add: str_def)
  then show ?thesis using b(4) v by (simp add: str_def)
qed

text \<open>
  The claim C6 as stated fails for a range that ends before it starts. In the document
  \<open>abcd\<close> the change of the range from 0:3 to 0:1 to \<open>X\<close> leaves the text
  \<open>abcXbcd\<close>: the old text up to offset 3, \<open>X\<close>, and the old text from offset 1 on.
  It has 7 code units, and a text that replaces a substring of \<open>abcd\<close> by \<open>X\<close> has at
  most 5 (\<open>replacement_length\<close>).
\<close>

theorem applyEdit_reversed_range:
  "offsetAt (exampleDocument (str ''abcd'')) (start (Range_create4 0 3 0 1)) = 3
   \<and> offsetAt (exampleDocument (str ''abcd'')) (endp (Range_create4 0 3 0 1)) = 1
   \<and> content (applyEdit (exampleDocument (str ''abcd'')) 2
        \<lparr>change_range = Some (Range_create4 0 3 0 1), change_text = str ''X''\<rparr>) = str ''abcXbcd''
   \<and> length (content (exampleDocument (str ''abcd''))) + length (str ''X'')
       < length (content (applyEdit (exampleDocument (str ''abcd'')) 2
           \<lparr>change_range = Some (Range_create4 0 3 0 1), change_text = str ''X''\<rparr>))"
proof -
  have c: "content (exampleDocument (str ''abcd'')) = str ''abcd''"
    by (simp add: exampleDocument_def LspDocument_new_def exampleItem_def TextDocument_create_def)
  have lo: "getLineOffsets (exampleDocument (str ''abcd'')) = [0]"
    by (simp add: getLineOffsets_def c; simp add: str_def)
  have s: "offsetAt (exampleDocument (str ''abcd'')) (start (Range_create4 0 3 0 1)) = 3"
    by (simp add: offsetAt_def lo c Range_create4_def Range_create_def Position_create_def Let_def;
        simp add: str_def)
  have e: "offsetAt (exampleDocument (str ''abcd'')) (endp (Range_create4 0 3 0 1)) = 1"
    by (simp add: offsetAt_def lo c Range_create4_def Range_create_def Position_create_def Let_def;
        simp add: str_def)
  have n: "content (applyEdit (exampleDocument (str ''abcd'')) 2
        \<lparr>change_range = Some (Range_create4 0 3 0 1), change_text = str ''X''\<rparr>) = str ''abcXbcd''"
    using s e by (simp add: applyEdit_def getText_def TextDocument_create_def Let_def c substr_def;
        simp add: str_def)
  show ?thesis using s e n c by (simp add: str_def)
qed

section \<open>Facts about the examples\<close>

lemma ex_u2p: "fileUriToPath (str ''file:///a.ts'') = Some (str ''/a.ts'')"
  by (simp add: fileUriToPath_def startsWith_def str_def)

lemma ex_doc: "documents (lsp_documents (exampleServer t)) (str ''/a.ts'') = Some (LspDocument_new (exampleItem t))"
  by (simp add: exampleServer_def)

lemma ex_files: "files (lsp_documents (exampleServer t)) = [str ''/a.ts'']"
  by (simp add: exampleServer_def)

lemma ex_client: "stdin_written (tspClient (exampleServer t)) = [] \<and> seq (tspClient (exampleServer t)) = 0
  \<and> published (exampleServer t) = []"
  by (simp add: exampleServer_def startedServer_def startedClient_def)

lemma ex_path_nonempty: "str ''/a.ts'' \<noteq> []"
  by (simp add: str_def)

section \<open>Opening, closing and completing documents\<close>

text \<open>
  Claim C7. For a path that is already in the open-document set, \<open>open\<close> returns false
  and leaves the set and the access order as they are; and \<open>didOpen\<close> for such a path
  (its uri resolves to the path) throws nothing, writes exactly one message to tsserver,
  a \<open>change\<close> that replaces the whole old text (from line 1, offset 1 to the end of the
  old text) by the new text, hence no \<open>open\<close>, and leaves the mirrored document with
  the new text and the new version; no other path of the mirror changes.
\<close>

theorem open_already_open:
  assumes "documents (lsp_documents st) file = Some doc"
    and "u2p (item_uri td) = Some file" and "file \<noteq> []"
  shows "LspDocuments_open (lsp_documents st) file td = (False, lsp_documents st)
    \<and> fst (didOpenTextDocument u2p st td) = None
    \<and> stdin_written (tspClient (snd (didOpenTextDocument u2p st td))) =
        stdin_written (tspClient st) @
          [\<lparr>command = Change, req_seq = seq (tspClient st) + 1,
            arguments = Some (ChangeRequestArgs file 1 1
               (line (positionAt doc (int (length (content doc)))) + 1)
               (character (positionAt doc (int (length (content doc)))) + 1)
               (item_text td))\<rparr>]
    \<and> documents (lsp_documents (snd (didOpenTextDocument u2p st td))) file =
        Some (doc\<lparr>version := item_version td, content := item_text td\<rparr>)
    \<and> (\<forall>f. f \<noteq> file \<longrightarrow> documents (lsp_documents (snd (didOpenTextDocument u2p st td))) f
                          = documents (lsp_documents st) f)"
  using assms
  by (auto simp: LspDocuments_open_def didOpenTextDocument_def didChangeTextDocument_def
        LspDocuments_get_def truthy_def changeStep_def notify_def sendMessage_def applyEdit_def
        TextDocument_create_def getText_def requestDiagnostics_def Let_def
        split: list.splits)

theorem open_already_open_witness:
  "LspDocuments_open (lsp_documents (exampleServer (str ''x''))) (str ''/a.ts'')
      ((exampleItem (str ''yz''))\<lparr>item_version := 2\<rparr>)
     = (False, lsp_documents (exampleServer (str ''x'')))
   \<and> stdin_written (tspClient (snd (didOpenTextDocument fileUriToPath (exampleServer (str ''x''))
         ((exampleItem (str ''yz''))\<lparr>item_version := 2\<rparr>)))) =
       [\<lparr>command = Change, req_seq = 1,
         arguments = Some (ChangeRequestArgs (str ''/a.ts'') 1 1 1 2 (str ''yz''))\<rparr>]
   \<and> map_option content (documents (lsp_documents (snd (didOpenTextDocument fileUriToPath
         (exampleServer (str ''x'')) ((exampleItem (str ''yz''))\<lparr>item_version := 2\<rparr>)))) (str ''/a.ts''))
       = Some (str ''yz'')"
proof -
  have u: "fileUriToPath (item_uri ((exampleItem (str ''yz''))\<lparr>item_version := 2\<rparr>)) = Some (str ''/a.ts'')"
    using ex_u2p by (simp add: exampleItem_def)
  have n: "str ''/a.ts'' \<noteq> []" by (simp add: str_def)
  have p: "positionAt (LspDocument_new (exampleItem (str ''x''))) (int (length (content (LspDocument_new (exampleItem (str ''x'')))))) = \<lparr>line = 0, character = 1\<rparr>"
    by (simp add: positionAt_def LspDocument_new_def exampleItem_def TextDocument_create_def getLineOffsets_def Position_create_def str_def)
  have s: "stdin_written (tspClient (exampleServer (str ''x''))) = [] \<and> seq (tspClient (exampleServer (str ''x''))) = 0"
    by (simp add: exampleServer_def startedServer_def startedClient_def)
  show ?thesis
    using open_already_open[of "exampleServer (str ''x'')" "str ''/a.ts''"
        "LspDocument_new (exampleItem (str ''x''))" fileUriToPath
        "(exampleItem (str ''yz''))\<lparr>item_version := 2\<rparr>", OF ex_doc u n] p s
    by (simp add: exampleItem_def)
qed

text \<open>
  Claim C8. When the uri of \<open>didClose\<close> resolves to a file: if the file is open in the
  mirror, it is removed from the mirror (from the map, and from the access order when it is
  listed there), exactly one message is written to tsserver, the \<open>close\<close> of the
  file, and one \<open>publishDiagnostics\<close> with an empty list is sent for the uri of the
  document; if the file is not open, nothing is sent, nothing is published and the server
  is unchanged.
\<close>

theorem didClose_closes:
  assumes "u2p u = Some file" and "file \<noteq> []"
  shows "(documents (lsp_documents st) file = Some d \<longrightarrow>
            documents (lsp_documents (didCloseTextDocument u2p st u)) file = None
          \<and> (file \<in> set (files (lsp_documents st)) \<longrightarrow>
               files (lsp_documents (didCloseTextDocument u2p st u)) = remove1 file (files (lsp_documents st)))
          \<and> stdin_written (tspClient (didCloseTextDocument u2p st u)) =
              stdin_written (tspClient st) @
                [\<lparr>command = Close, req_seq = seq (tspClient st) + 1,
                  arguments = Some (FileRequestArgs file)\<rparr>]
          \<and> published (didCloseTextDocument u2p st u) =
              published st @ [\<lparr>pd_uri = uri d, diagnostics = []\<rparr>])
       \<and> (documents (lsp_documents st) file = None \<longrightarrow> didCloseTextDocument u2p st u = st)"
  using assms
  by (auto simp: didCloseTextDocument_def closeDocument_def LspDocuments_close_def truthy_def
        notify_def sendMessage_def splice1_indexOf Let_def)

theorem didClose_closes_witness:
  "documents (lsp_documents (didCloseTextDocument fileUriToPath (exampleServer (str ''x''))
       (str ''file:///a.ts''))) (str ''/a.ts'') = None
   \<and> files (lsp_documents (didCloseTextDocument fileUriToPath (exampleServer (str ''x''))
       (str ''file:///a.ts''))) = []
   \<and> stdin_written (tspClient (didCloseTextDocument fileUriToPath (exampleServer (str ''x''))
       (str ''file:///a.ts''))) =
       [\<lparr>command = Close, req_seq = 1, arguments = Some (FileRequestArgs (str ''/a.ts''))\<rparr>]
   \<and> published (didCloseTextDocument fileUriToPath (exampleServer (str ''x'')) (str ''file:///a.ts'')) =
       [\<lparr>pd_uri = str ''file:///a.ts'', diagnostics = []\<rparr>]
   \<and> didCloseTextDocument fileUriToPath (startedServer (str ''/tmp/tscancellation''))
       (str ''file:///a.ts'') = startedServer (str ''/tmp/tscancellation'')"
proof -
  have d: "uri (LspDocument_new (exampleItem (str ''x''))) = str ''file:///a.ts''"
    by (simp add: LspDocument_new_def exampleItem_def TextDocument_create_def)
  have e: "documents (lsp_documents (startedServer (str ''/tmp/tscancellation''))) (str ''/a.ts'') = None"
    by (simp add: startedServer_def)
  show ?thesis
    using didClose_closes[of fileUriToPath "str ''file:///a.ts''" "str ''/a.ts''"
            "exampleServer (str ''x'')" "LspDocument_new (exampleItem (str ''x''))", OF ex_u2p ex_path_nonempty]
          didClose_closes[of fileUriToPath "str ''file:///a.ts''" "str ''/a.ts''"
            "startedServer (str ''/tmp/tscancellation'')" "LspDocument_new (exampleItem (str ''x''))", OF ex_u2p ex_path_nonempty]
          ex_doc[of "str ''x''"] ex_files[of "str ''x''"] ex_client[of "str ''x''"] d e
    by simp
qed

text \<open>
  Claim C10. A completion request whose uri resolves to no path returns the empty list
  and leaves the server as it is; one whose uri resolves to a path that is not in the
  mirror throws the error "The document should be opened for completion", whatever
  tsserver would answer, and returns neither an empty list nor null.
\<close>

theorem completion_unopened_document_throws:
  "(\<not> truthy (u2p (cp_uri params)) \<longrightarrow>
      completion u2p st params reply = (Inr (Some \<lparr>isIncomplete = False, items = []\<rparr>), st))
   \<and> (truthy (u2p (cp_uri params)) \<and> documents (lsp_documents st) (the (u2p (cp_uri params))) = None \<longrightarrow>
      completion u2p st params reply =
        (Inl (Error (str ''The document should be opened for completion, file: ''
                     @ the (u2p (cp_uri params)))), st))"
  by (auto simp: completion_def LspDocuments_get_def Let_def)

theorem completion_unopened_document_throws_witness:
  "completion fileUriToPath (startedServer (str ''/tmp/tscancellation''))
      \<lparr>cp_uri = str ''file:///a.ts'', cp_position = \<lparr>line = 0, character = 0\<rparr>,
       cp_triggerCharacter = None\<rparr>
      (Rejected (failedResponse 1 (str ''No content available.'')))
    = (Inl (Error (str ''The document should be opened for completion, file: /a.ts'')),
       startedServer (str ''/tmp/tscancellation''))
   \<and> completion fileUriToPath (exampleServer (str ''x''))
      \<lparr>cp_uri = str ''untitled:Untitled-1'', cp_position = \<lparr>line = 0, character = 0\<rparr>,
       cp_triggerCharacter = None\<rparr>
      (Rejected (failedResponse 1 (str ''No content available.'')))
    = (Inr (Some \<lparr>isIncomplete = False, items = []\<rparr>), exampleServer (str ''x''))"
proof -
  have a: "fileUriToPath (str ''untitled:Untitled-1'') = None"
    by (simp add: fileUriToPath_def startsWith_def str_def)
  have e: "documents (lsp_documents (startedServer (str ''/tmp/tscancellation''))) (str ''/a.ts'') = None"
    by (simp add: startedServer_def)
  have c: "str ''The document should be opened for completion, file: '' @ str ''/a.ts''
           = str ''The document should be opened for completion, file: /a.ts''"
    by (simp add: str_def)
  show ?thesis
    using completion_unopened_document_throws[of fileUriToPath
            "\<lparr>cp_uri = str ''file:///a.ts'', cp_position = \<lparr>line = 0, character = 0\<rparr>,
              cp_triggerCharacter = None\<rparr>" "startedServer (str ''/tmp/tscancellation'')"
            "Rejected (failedResponse 1 (str ''No content available.''))"]
          completion_unopened_document_throws[of fileUriToPath
            "\<lparr>cp_uri = str ''untitled:Untitled-1'', cp_position = \<lparr>line = 0, character = 0\<rparr>,
              cp_triggerCharacter = None\<rparr>" "exampleServer (str ''x'')"
            "Rejected (failedResponse 1 (str ''No content available.''))"]
          ex_u2p a e c ex_path_nonempty
    by (simp add: truthy_def)
qed

section \<open>Settling requests\<close>




















text \<open>
  Claim C3, as amended. A line that is empty after trimming, or starts with
  \<open>Content-Length:\<close>, is discarded: \<open>processMessage\<close> returns normally and the client
  is unchanged. For any other line that is not valid JSON, the exception of
  \<open>JSON.parse\<close> leaves \<open>processMessage\<close>; nothing has been logged by then and the
  client is unchanged.
\<close>

theorem processMessage_discards_or_throws:
  "(trim l = [] \<or> startsWith (trim l) (str ''Content-Length:'') \<longrightarrow>
      processMessage parse c l = (None, c))
   \<and> (trim l \<noteq> [] \<and> \<not> startsWith (trim l) (str ''Content-Length:'') \<and> parse (trim l) = None \<longrightarrow>
      processMessage parse c l = (Some SyntaxError, c))"
  by (simp add: processMessage_def Let_def)










lemma trim_examples:
  "trim (str ''Content-Length: 76'' @ [0x000D]) = str ''Content-Length: 76''
   \<and> trim [0x000D] = [] \<and> trim (str ''{seq'') = str ''{seq''"
  by (simp add: trim_def str_def isWhiteSpace_def isLineTerminator_def)

lemma parse_garbage: "exampleParse (str ''{seq'') = None"
  by (simp add: exampleParse_def responseLine_def failedResponseLine_def requestCompletedLine_def str_def)

theorem processMessage_discards_or_throws_witness:
  "processMessage exampleParse requestSent (str ''Content-Length: 76'' @ [0x000D]) = (None, requestSent)
   \<and> processMessage exampleParse requestSent [0x000D] = (None, requestSent)
   \<and> processMessage exampleParse requestSent (str ''{seq'') = (Some SyntaxError, requestSent)"
proof -
  have h: "startsWith (str ''Content-Length: 76'') (str ''Content-Length:'')
      \<and> \<not> startsWith (str ''{seq'') (str ''Content-Length:'') \<and> str ''{seq'' \<noteq> []"
    by (simp add: startsWith_def str_def)
  show ?thesis
    using processMessage_discards_or_throws[of "str ''Content-Length: 76'' @ [0x000D]" exampleParse requestSent]
          processMessage_discards_or_throws[of "[0x000D]" exampleParse requestSent]
          processMessage_discards_or_throws[of "str ''{seq''" exampleParse requestSent]
          trim_examples h parse_garbage
    by simp
qed

text \<open>
  The claim C3 as stated fails for a line that is not valid JSON: it is not logged and
  dropped, the handler of the line throws a \<open>SyntaxError\<close> and the log is empty.
\<close>

theorem invalid_json_line_throws:
  "fst (processMessage exampleParse (startedClient (str ''/tmp/tscancellation'')) (str ''{seq''))
     = Some SyntaxError
   \<and> logged (snd (processMessage exampleParse (startedClient (str ''/tmp/tscancellation''))
        (str ''{seq''))) = []"
  using trim_examples parse_garbage
  by (simp add: processMessage_def startsWith_def Let_def startedClient_def str_def)

section \<open>Completion items\<close>

text \<open>
  Claim C9, at the input where the code leaves it. The claim's regular expression ends with
  a quote before the closing bracket; the one of the source also takes an opening bracket
  there. For the insert text \<open>['a[]\<close> of an entry named \<open>a\<close>, \<open>getFilterText\<close>
  returns \<open>.a\<close>, where the claim (\<open>specFilterText\<close>, which follows its words) gives the
  insert text itself.
\<close>

theorem getFilterText_bracket_class:
  "getFilterText [] (Some (str ''['a[]'')) (exampleEntry (str ''a'') (Some (str ''['a[]'')))
      \<lparr>line = 0, character = 4\<rparr> (exampleDocument (str ''xyz.''))
     = Some (str ''.a'')
   \<and> specFilterText (Some (str ''['a[]'')) = Some (str ''['a[]'')"
  by (simp add: getFilterText_def specFilterText_def exampleEntry_def startsWith_def str_def
        replaceBracketAccessor_def bracketAccessorGroup_def specBracketAccessorGroup_def
        isLineTerminator_def Let_def)

lemma MAX_VALUE_large: "1000 \<le> MAX_VALUE"
proof -
  have "(2::int) ^ 971 * 2 \<le> 2 ^ 971 * 2 ^ 53" by (intro mult_left_mono) simp_all
  then have "(2::int) ^ 971 + 2 ^ 971 \<le> 2 ^ 1024" by (simp add: power_add[symmetric])
  moreover have "(1000::int) \<le> 2 ^ 971"
  proof -
    have "(2::int) ^ 10 \<le> 2 ^ 971" by (rule power_increasing) simp_all
    then show ?thesis by simp
  qed
  ultimately show ?thesis by (simp add: MAX_VALUE_def)
qed

lemma lineAt_example: "lineAt (exampleDocument (str ''obj.'')) 0 = str ''obj.''"
proof -
  have lo: "getLineOffsets (exampleDocument (str ''obj.'')) = [0]"
    by (simp add: exampleDocument_def LspDocument_new_def exampleItem_def
          TextDocument_create_def getLineOffsets_def str_def)
  have c: "content (exampleDocument (str ''obj.'')) = str ''obj.''"
    by (simp add: exampleDocument_def LspDocument_new_def exampleItem_def TextDocument_create_def)
  have a: "offsetAt (exampleDocument (str ''obj.'')) \<lparr>line = 0, character = -1\<rparr> = 0"
    by (simp add: offsetAt_def lo c Let_def; simp add: str_def)
  have b: "offsetAt (exampleDocument (str ''obj.'')) \<lparr>line = 0, character = MAX_VALUE\<rparr> = 4"
    using MAX_VALUE_large by (simp add: offsetAt_def lo c Let_def; simp add: str_def)
  show ?thesis
    by (simp add: lineAt_def getText_def Range_create4_def Range_create_def Position_create_def
          a b c substring_def Let_def; simp add: str_def)
qed

lemma dot_context_example:
  "dotAccessorContextAt (exampleDocument (str ''obj.'')) \<lparr>line = 0, character = 4\<rparr>
     = Some \<lparr>dot_range = \<lparr>start = \<lparr>line = 0, character = 3\<rparr>, endp = \<lparr>line = 0, character = 4\<rparr>\<rparr>,
             dot_text = str ''.''\<rparr>"
proof -
  have lo: "getLineOffsets (exampleDocument (str ''obj.'')) = [0]"
    by (simp add: exampleDocument_def LspDocument_new_def exampleItem_def
          TextDocument_create_def getLineOffsets_def str_def)
  have c: "content (exampleDocument (str ''obj.'')) = str ''obj.''"
    by (simp add: exampleDocument_def LspDocument_new_def exampleItem_def TextDocument_create_def)
  have s: "slice (str ''obj.'') 0 4 = str ''obj.''" by (simp add: slice_def str_def Let_def)
  have m: "dotMatch (str ''obj.'') = Some (str ''.'')"
    by (simp add: dotMatch_def isWhiteSpace_def isLineTerminator_def str_def Let_def)
  have t: "getText (exampleDocument (str ''obj.''))
             (Some \<lparr>start = \<lparr>line = 0, character = 3\<rparr>, endp = \<lparr>line = 0, character = 4\<rparr>\<rparr>) = str ''.''"
    by (simp add: getText_def offsetAt_def lo c substring_def Let_def; simp add: str_def)
  show ?thesis
    using t by (simp add: dotAccessorContextAt_def lineAt_example s m Range_create_def
          Position_create_def Let_def; simp add: str_def)
qed

lemma item_example:
  "asCompletionItem (exampleEntry (str ''foo'') None) (str ''/a.ts'') \<lparr>line = 0, character = 4\<rparr>
      (exampleDocument (str ''obj.''))
   = \<lparr>label = str ''foo'', item_kind = CIK_Field, item_sortText = str ''0'',
      commitCharacters = Some [str ''.'', str '','', str ''(''],
      data = \<lparr>data_file = str ''/a.ts'', data_line = 1, data_offset = 5,
              entryNames = [EntryNameOnly (str ''foo'')]\<rparr>,
      filterText = None, item_insertText = None, preselect = None, insertTextFormat = None,
      detail = None, textEdit = None\<rparr>"
  by (simp add: asCompletionItem_def exampleEntry_def getFilterText_def truthy_def startsWith_def
        asCompletionItemKind_def asCommitCharacters_def str_def Let_def)

lemma completionResponse_fields:
  "msg_type (completionResponse s member es) = str ''response''
   \<and> body (completionResponse s member es)
       = Some (CompletionBody \<lparr>isNewIdentifierLocation = False, isMemberCompletion = member,
                                entries = es\<rparr>)"
  by (simp add: completionResponse_def)

text \<open>
  Claim C2, at the input where the code leaves it. In the document \<open>obj.\<close> with the
  cursor after the dot, a member completion with the entry \<open>foo\<close> has the dot-accessor
  context of the dot, and \<open>completion\<close> returns one item for it that has no filter
  text and no text edit: the context is not used.
\<close>

theorem completion_drops_dot_accessor:
  "dotAccessorContextAt (exampleDocument (str ''obj.'')) \<lparr>line = 0, character = 4\<rparr>
     = Some \<lparr>dot_range = \<lparr>start = \<lparr>line = 0, character = 3\<rparr>, endp = \<lparr>line = 0, character = 4\<rparr>\<rparr>,
             dot_text = str ''.''\<rparr>
   \<and> fst (completion fileUriToPath (exampleServer (str ''obj.''))
        \<lparr>cp_uri = str ''file:///a.ts'', cp_position = \<lparr>line = 0, character = 4\<rparr>,
         cp_triggerCharacter = Some (str ''.'')\<rparr>
        (Resolved (completionResponse 1 True [exampleEntry (str ''foo'') None])))
     = Inr (Some \<lparr>isIncomplete = False,
                    items = [\<lparr>label = str ''foo'', item_kind = CIK_Field, item_sortText = str ''0'',
                              commitCharacters = Some [str ''.'', str '','', str ''(''],
                              data = \<lparr>data_file = str ''/a.ts'', data_line = 1, data_offset = 5,
                                      entryNames = [EntryNameOnly (str ''foo'')]\<rparr>,
                              filterText = None, item_insertText = None, preselect = None,
                              insertTextFormat = None, detail = None, textEdit = None\<rparr>]\<rparr>)"
proof -
  have t: "truthy (Some (str ''/a.ts''))" by (simp add: truthy_def str_def)
  have g: "LspDocuments_get (lsp_documents (exampleServer (str ''obj.''))) (str ''/a.ts'')
           = (Some (exampleDocument (str ''obj.'')), lsp_documents (exampleServer (str ''obj.'')))"
    by (simp add: LspDocuments_get_def exampleServer_def exampleDocument_def)
  have d: "diagnosticsTokenSource (exampleServer (str ''obj.'')) = None"
    by (simp add: exampleServer_def startedServer_def)
  have x: "\<not> showExcludeCompletionEntry (exampleEntry (str ''foo'') None)
              \<lparr>useCodeSnippetsOnMethodSuggest = False, nameSuggestions = True,
               pathSuggestions = True, autoImportSuggestions = True,
               includeAutomaticOptionalChainCompletions = True\<rparr>"
    by (simp add: showExcludeCompletionEntry_def)
  have "fst (completion fileUriToPath (exampleServer (str ''obj.''))
        \<lparr>cp_uri = str ''file:///a.ts'', cp_position = \<lparr>line = 0, character = 4\<rparr>,
         cp_triggerCharacter = Some (str ''.'')\<rparr>
        (Resolved (completionResponse 1 True [exampleEntry (str ''foo'') None])))
     = Inr (Some \<lparr>isIncomplete = False,
                    items = [asCompletionItem (exampleEntry (str ''foo'') None) (str ''/a.ts'')
                               \<lparr>line = 0, character = 4\<rparr> (exampleDocument (str ''obj.''))]\<rparr>)"
    by (simp add: completion_def ex_u2p t g d x completionResponse_fields interuptDiagnostics_def tspRequest_def
          split_def Let_def)
  then show ?thesis using dot_context_example item_example by simp
qed

text \<open>
  The two filter texts differ at that insert text: the code does not compute what claim C9
  states.
\<close>

theorem getFilterText_bracket_class_witness:
  "getFilterText [] (Some (str ''['a[]'')) (exampleEntry (str ''a'') (Some (str ''['a[]'')))
      \<lparr>line = 0, character = 4\<rparr> (exampleDocument (str ''xyz.''))
     \<noteq> specFilterText (Some (str ''['a[]''))"
  using getFilterText_bracket_class by (simp add: str_def)

text \<open>
  The item that \<open>completion\<close> returns in that example has no filter text, where claim
  C2 states the filter text \<open>.foo\<close>.
\<close>

theorem completion_drops_dot_accessor_witness:
  "map filterText (items (the (projr (fst (completion fileUriToPath (exampleServer (str ''obj.''))
        \<lparr>cp_uri = str ''file:///a.ts'', cp_position = \<lparr>line = 0, character = 4\<rparr>,
         cp_triggerCharacter = Some (str ''.'')\<rparr>
        (Resolved (completionResponse 1 True [exampleEntry (str ''foo'') None]))))))) = [None]"
  using completion_drops_dot_accessor by simp

section \<open>The range of a text edit\<close>

lemma getLineOffset_next:
  assumes "0 \<le> l" "l + 1 < lineCount d"
  shows "getLineOffset d (l + 1) = getLineOffsets d ! nat (l + 1)"
  using assms
  by (simp add: getLineOffset_def getLineStart_def Position_create_def offsetAt_def lineCount_def Let_def)

lemma takeWhile_sorted_count:
  assumes "sorted_wrt (<) (xs :: int list)" "Suc n < length xs"
  shows "length (takeWhile (\<lambda>x. x \<le> xs ! Suc n - 1) xs) = Suc n"
proof -
  have "takeWhile (\<lambda>x. x \<le> xs ! Suc n - 1) xs = take (Suc n) xs"
  proof (rule takeWhile_eq_take_P_nth)
    fix i assume i: "i < Suc n" "i < length xs"
    then have "xs ! i < xs ! Suc n" using assms by (simp add: sorted_wrt_nth_less)
    then show "xs ! i \<le> xs ! Suc n - 1" by simp
  next
    show "\<not> xs ! Suc n \<le> xs ! Suc n - 1" by simp
  qed
  then show ?thesis using assms(2) by simp
qed

lemma getLineEnd_line:
  assumes "0 \<le> l" "l + 1 < lineCount d"
  shows "line (getLineEnd d l) = l"
proof -
  let ?lo = "getLineOffsets d"
  let ?n = "nat l"
  have n: "Suc ?n < length ?lo" using assms by (simp add: lineCount_def)
  have nn: "nat (l + 1) = Suc ?n" using assms by linarith
  let ?b = "?lo ! Suc ?n"
  have b_mem: "?b \<in> set ?lo" using n by simp
  have b_le: "?b \<le> int (length (content d))" using getLineOffsets_bounds[OF b_mem] by simp
  have "?lo ! ?n < ?b" using getLineOffsets_sorted[of d] n by (simp add: sorted_wrt_nth_less)
  moreover have "0 \<le> ?lo ! ?n" using getLineOffsets_bounds[of "?lo ! ?n" d] n by simp
  ultimately have b_pos: "1 \<le> ?b" by linarith
  have off: "max (min (?b - 1) (int (length (content d)))) 0 = ?b - 1"
    using b_le b_pos by simp
  have ne: "?lo \<noteq> []" using n by auto
  have cnt: "length (takeWhile (\<lambda>x. x \<le> ?b - 1) ?lo) = Suc ?n"
    using takeWhile_sorted_count[OF getLineOffsets_sorted n] .
  have "getLineEnd d l = positionAt d (?b - 1)"
    using getLineOffset_next[OF assms] nn by (simp add: getLineEnd_def)
  then have "line (getLineEnd d l) = int (Suc ?n) - 1"
    using off ne cnt by (simp add: positionAt_def Position_create_def Let_def)
  then show ?thesis using assms by simp
qed

lemma textEdit_of_span:
  assumes "replacementSpan entry = Some sp" and "truthy (insertText entry)"
  shows "textEdit (asCompletionItem entry file position document) =
           Some \<lparr>edit_range =
                    (if line (start (asRange sp)) \<noteq> line (endp (asRange sp))
                     then Range_create (start (asRange sp))
                            (getLineEnd document (line (start (asRange sp))))
                     else asRange sp),
                  newText = the (insertText entry)\<rparr>"
  using assms by (simp add: asCompletionItem_def Let_def)

text \<open>
  What \<open>asCompletionItem\<close> does with a replacement span. For an entry with a span and an
  insert text a text edit is emitted; it inserts the insert text, and its range starts where
  the span starts. The range is the converted span when the span starts and ends on one
  line, and otherwise ends at \<open>getLineEnd\<close> of the line the span starts on. It lies on
  a single line when the span does, and also when the span starts on a line of the document
  that is not its last one, which holds for every span of several lines inside the
  document. The cursor is not looked at.
\<close>

lemma replacement_range_on_one_line:
  assumes "replacementSpan entry = Some sp" and "truthy (insertText entry)"
  shows "\<exists>te. textEdit (asCompletionItem entry file position document) = Some te
     \<and> newText te = the (insertText entry)
     \<and> start (edit_range te) = toPosition (span_start sp)
     \<and> (loc_line (span_start sp) = loc_line (span_end sp) \<longrightarrow> edit_range te = asRange sp)
     \<and> (loc_line (span_start sp) \<noteq> loc_line (span_end sp) \<longrightarrow>
          endp (edit_range te) = getLineEnd document (loc_line (span_start sp) - 1))
     \<and> (loc_line (span_start sp) = loc_line (span_end sp)
          \<or> 1 \<le> loc_line (span_start sp) \<and> loc_line (span_start sp) < lineCount document \<longrightarrow>
          line (start (edit_range te)) = line (endp (edit_range te)))"
proof -
  let ?r = "if line (start (asRange sp)) \<noteq> line (endp (asRange sp))
            then Range_create (start (asRange sp)) (getLineEnd document (line (start (asRange sp))))
            else asRange sp"
  let ?te = "\<lparr>edit_range = ?r, newText = the (insertText entry)\<rparr>"
  have e: "textEdit (asCompletionItem entry file position document) = Some ?te"
    using textEdit_of_span[OF assms] .
  have l: "line (start (asRange sp)) = loc_line (span_start sp) - 1"
          "line (endp (asRange sp)) = loc_line (span_end sp) - 1"
          "start (asRange sp) = toPosition (span_start sp)"
    by (simp_all add: asRange_def toPosition_def)
  have c1: "start ?r = toPosition (span_start sp)"
    using l by (simp add: Range_create_def)
  have c2: "loc_line (span_start sp) = loc_line (span_end sp) \<longrightarrow> ?r = asRange sp"
    using l by simp
  have c3: "loc_line (span_start sp) \<noteq> loc_line (span_end sp) \<longrightarrow>
          endp ?r = getLineEnd document (loc_line (span_start sp) - 1)"
    using l by (simp add: Range_create_def)
  have c4: "loc_line (span_start sp) = loc_line (span_end sp)
          \<or> 1 \<le> loc_line (span_start sp) \<and> loc_line (span_start sp) < lineCount document \<longrightarrow>
          line (start ?r) = line (endp ?r)"
  proof (cases "loc_line (span_start sp) = loc_line (span_end sp)")
    case True
    then show ?thesis using l by simp
  next
    case False
    show ?thesis
    proof
      assume "loc_line (span_start sp) = loc_line (span_end sp)
          \<or> 1 \<le> loc_line (span_start sp) \<and> loc_line (span_start sp) < lineCount document"
      then have b: "0 \<le> loc_line (span_start sp) - 1" "loc_line (span_start sp) - 1 + 1 < lineCount document"
        using False by auto
      have "line (getLineEnd document (loc_line (span_start sp) - 1)) = loc_line (span_start sp) - 1"
        using getLineEnd_line[OF b] .
      then show "line (start ?r) = line (endp ?r)"
        using l False by (simp add: Range_create_def)
    qed
  qed
  have "newText ?te = the (insertText entry)
     \<and> start (edit_range ?te) = toPosition (span_start sp)
     \<and> (loc_line (span_start sp) = loc_line (span_end sp) \<longrightarrow> edit_range ?te = asRange sp)
     \<and> (loc_line (span_start sp) \<noteq> loc_line (span_end sp) \<longrightarrow>
          endp (edit_range ?te) = getLineEnd document (loc_line (span_start sp) - 1))
     \<and> (loc_line (span_start sp) = loc_line (span_end sp)
          \<or> 1 \<le> loc_line (span_start sp) \<and> loc_line (span_start sp) < lineCount document \<longrightarrow>
          line (start (edit_range ?te)) = line (endp (edit_range ?te)))"
    using c1 c2 c3 c4 by simp
  then show ?thesis using e by blast
qed

lemma chainDocument_offsets:
  "getLineOffsets chainDocument = [0, 3] \<and> content chainDocument = str ''x.'' @ [0x000A] @ str ''fo''"
  by (simp add: chainDocument_def LspDocument_new_def exampleItem_def TextDocument_create_def
        getLineOffsets_def str_def)

lemma chainDocument_lineEnd: "getLineEnd chainDocument 0 = \<lparr>line = 0, character = 2\<rparr>"
  by (simp add: getLineEnd_def getLineOffset_def getLineStart_def Position_create_def offsetAt_def
        positionAt_def chainDocument_offsets Let_def; simp add: str_def)

lemma chainEntry_span:
  "replacementSpan chainEntry = Some \<lparr>span_start = \<lparr>loc_line = 1, loc_offset = 2\<rparr>,
                                       span_end = \<lparr>loc_line = 2, loc_offset = 3\<rparr>\<rparr>
   \<and> insertText chainEntry = Some (str ''?.foo'')"
  by (simp add: chainEntry_def)

lemma chainEntry_textEdit:
  "textEdit (asCompletionItem chainEntry (str ''/a.ts'') p chainDocument)
     = Some \<lparr>edit_range = \<lparr>start = \<lparr>line = 0, character = 1\<rparr>, endp = \<lparr>line = 0, character = 2\<rparr>\<rparr>,
             newText = str ''?.foo''\<rparr>"
proof -
  have t: "truthy (insertText chainEntry)" by (simp add: chainEntry_def truthy_def str_def)
  show ?thesis
    using textEdit_of_span[OF chainEntry_span[THEN conjunct1] t, of "str ''/a.ts''" p chainDocument]
    by (simp add: chainEntry_span asRange_def toPosition_def Range_create_def chainDocument_lineEnd)
qed

text \<open>
  Claim C4, at the input where the code leaves it. In the document of the two lines \<open>x.\<close>
  and \<open>fo\<close>, with the cursor at the end of the second line, the entry \<open>foo\<close> has a
  replacement span from the dot to the cursor. The span contains the cursor. The text edit
  that \<open>asCompletionItem\<close> emits has the range cut to the first line, from the dot to
  the end of that line: a single line, which does not contain the cursor.
\<close>

theorem clamped_range_misses_cursor:
  "textEdit (asCompletionItem chainEntry (str ''/a.ts'') \<lparr>line = 1, character = 2\<rparr> chainDocument)
     = Some \<lparr>edit_range = \<lparr>start = \<lparr>line = 0, character = 1\<rparr>, endp = \<lparr>line = 0, character = 2\<rparr>\<rparr>,
             newText = str ''?.foo''\<rparr>
   \<and> Range_contains (asRange (the (replacementSpan chainEntry))) \<lparr>line = 1, character = 2\<rparr>
   \<and> \<not> Range_contains \<lparr>start = \<lparr>line = 0, character = 1\<rparr>, endp = \<lparr>line = 0, character = 2\<rparr>\<rparr>
          \<lparr>line = 1, character = 2\<rparr>"
  using chainEntry_textEdit[of "\<lparr>line = 1, character = 2\<rparr>"]
  by (simp add: chainEntry_span Range_contains_def isBefore_def asRange_def toPosition_def)

text \<open>
  The range of the text edit of that example does not contain the position at which the
  completion was requested, where claim C4 states that it does.
\<close>

theorem clamped_range_misses_cursor_witness:
  "\<not> Range_contains
       (edit_range (the (textEdit (asCompletionItem chainEntry (str ''/a.ts'')
          \<lparr>line = 1, character = 2\<rparr> chainDocument))))
       \<lparr>line = 1, character = 2\<rparr>"
  using clamped_range_misses_cursor by simp

section \<open>Diagnostics requests in flight\<close>
















































end
